theory Spec2Isabelle
  imports Complex_Main
begin

section \<open>Python values\<close>

text \<open>
  The panel exchanges JSON-like documents with its host: \<open>ctx.params\<close>, the panel state
  and the render data. A value is \<open>None\<close>, a bool, an int, a float, a string, a list or a
  dict. A float is modelled by the real number it denotes (NaN and the infinities are not
  modelled); float arithmetic rounds, so it is never computed here: numpy's and Python's
  arithmetic are parameters of the host record below. A dict is an association list in
  insertion order whose keys are pairwise unequal.
\<close>

datatype pyval =
    VNone
  | VBool bool
  | VInt int
  | VFloat real
  | VStr string
  | VList "pyval list"
  | VDict "(pyval \<times> pyval) list"

text \<open>
  The exceptions the code can meet. \<open>HostError\<close> is any \<open>Exception\<close> raised inside a
  host call or a snippet; \<open>SystemExit\<close> stands for the exceptions that derive from
  \<open>BaseException\<close> only, which \<open>except Exception\<close> does not catch. What the code
  prints is not modelled.
\<close>

datatype error =
    AttributeError
  | TypeError
  | KeyError
  | ValueError
  | HostError string
  | SystemExit

fun is_Exception :: "error \<Rightarrow> bool" where
  "is_Exception SystemExit = False"
| "is_Exception _ = True"

text \<open>Truth value testing (\<open>if x:\<close>, \<open>not x\<close>, \<open>x and y\<close>).\<close>

fun truthy :: "pyval \<Rightarrow> bool" where
  "truthy VNone = False"
| "truthy (VBool b) = b"
| "truthy (VInt i) = (i \<noteq> 0)"
| "truthy (VFloat r) = (r \<noteq> 0)"
| "truthy (VStr s) = (s \<noteq> [])"
| "truthy (VList xs) = (xs \<noteq> [])"
| "truthy (VDict kvs) = (kvs \<noteq> [])"

subsection \<open>Dictionaries\<close>

text \<open>
  Lists and dicts are unhashable: using one as a key raises \<open>TypeError\<close>. Keys are compared
  with \<open>==\<close> (and equal keys hash alike): bools and numbers by their numeric value, so
  \<open>True\<close>, \<open>1\<close> and \<open>1.0\<close> are one key; everything else structurally.
\<close>

fun hashable :: "pyval \<Rightarrow> bool" where
  "hashable (VList _) = False"
| "hashable (VDict _) = False"
| "hashable _ = True"

fun num_of :: "pyval \<Rightarrow> real option" where
  "num_of (VBool b) = Some (if b then 1 else 0)"
| "num_of (VInt i) = Some (of_int i)"
| "num_of (VFloat r) = Some r"
| "num_of _ = None"

definition key_eq :: "pyval \<Rightarrow> pyval \<Rightarrow> bool" where
  "key_eq a b =
     (case num_of a of
        Some x \<Rightarrow> (case num_of b of Some y \<Rightarrow> x = y | None \<Rightarrow> False)
      | None \<Rightarrow> (case num_of b of Some y \<Rightarrow> False | None \<Rightarrow> a = b))"

text \<open>\<open>d.get(k)\<close> on the entries of a dict, for a hashable \<open>k\<close>.\<close>

fun dict_get :: "(pyval \<times> 'v) list \<Rightarrow> pyval \<Rightarrow> 'v option" where
  "dict_get [] k = None"
| "dict_get ((k', v) # kvs) k = (if key_eq k' k then Some v else dict_get kvs k)"

text \<open>
  \<open>d[k] = v\<close>: an existing entry keeps its key and its place and takes the new value; a new
  key is appended.
\<close>

fun dict_set :: "(pyval \<times> 'v) list \<Rightarrow> pyval \<Rightarrow> 'v \<Rightarrow> (pyval \<times> 'v) list" where
  "dict_set [] k v = [(k, v)]"
| "dict_set ((k', v') # kvs) k v =
     (if key_eq k' k then (k', v) # kvs else (k', v') # dict_set kvs k v)"

text \<open>The entries left by \<open>d.pop(k)\<close> when the key is present.\<close>

fun dict_del :: "(pyval \<times> 'v) list \<Rightarrow> pyval \<Rightarrow> (pyval \<times> 'v) list" where
  "dict_del [] k = []"
| "dict_del ((k', v') # kvs) k = (if key_eq k' k then kvs else (k', v') # dict_del kvs k)"

text \<open>
  \<open>d[k] = v\<close> and \<open>d.pop(k)\<close> with their exceptions. \<open>pop\<close> looks at the size of the dict
  before it hashes the key: on an empty dict it raises \<open>KeyError\<close> whatever the key.
\<close>

definition setitem :: "(pyval \<times> 'v) list \<Rightarrow> pyval \<Rightarrow> 'v \<Rightarrow> error + (pyval \<times> 'v) list" where
  "setitem d k v = (if hashable k then Inr (dict_set d k v) else Inl TypeError)"

definition pop :: "(pyval \<times> 'v) list \<Rightarrow> pyval \<Rightarrow> error + (pyval \<times> 'v) list" where
  "pop d k =
     (if d = [] then Inl KeyError
      else if \<not> hashable k then Inl TypeError
      else case dict_get d k of None \<Rightarrow> Inl KeyError | Some _ \<Rightarrow> Inr (dict_del d k))"

text \<open>
  \<open>data.get("key", default)\<close> with a string literal as key, on the entries of a dict.
  A key that is present wins over the default whatever its value, \<open>None\<close> included.
\<close>

definition dget :: "(pyval \<times> pyval) list \<Rightarrow> string \<Rightarrow> pyval \<Rightarrow> pyval" where
  "dget d k dflt = (case dict_get d (VStr k) of None \<Rightarrow> dflt | Some v \<Rightarrow> v)"

text \<open>
  The same call on any value: only a dict has a \<open>get\<close> method, every other value of this
  model raises \<open>AttributeError\<close>.
\<close>

fun get :: "pyval \<Rightarrow> string \<Rightarrow> pyval \<Rightarrow> error + pyval" where
  "get (VDict d) k dflt = Inr (dget d k dflt)"
| "get _ k dflt = Inl AttributeError"

section \<open>Chart kinds\<close>

datatype PlotlyPlotType = bar | scatter | line | pie

datatype PlotType = categorical_histogram | numeric_histogram | line | scatter | pie

text \<open>The \<open>.value\<close> of an enumeration member.\<close>

fun PlotlyPlotType_value :: "PlotlyPlotType \<Rightarrow> string" where
  "PlotlyPlotType_value bar = ''bar''"
| "PlotlyPlotType_value PlotlyPlotType.scatter = ''scatter''"
| "PlotlyPlotType_value PlotlyPlotType.line = ''line''"
| "PlotlyPlotType_value PlotlyPlotType.pie = ''pie''"

fun PlotType_value :: "PlotType \<Rightarrow> string" where
  "PlotType_value categorical_histogram = ''categorical_histogram''"
| "PlotType_value numeric_histogram = ''numeric_histogram''"
| "PlotType_value line = ''line''"
| "PlotType_value scatter = ''scatter''"
| "PlotType_value pie = ''pie''"

text \<open>
  \<open>PlotType(type)\<close>: the member whose value equals the argument, \<open>ValueError\<close> when there
  is none. Only a string equals a string, so every other value is refused.
\<close>

fun PlotType_call :: "pyval \<Rightarrow> error + PlotType" where
  "PlotType_call (VStr s) =
     (if s = ''categorical_histogram'' then Inr categorical_histogram
      else if s = ''numeric_histogram'' then Inr numeric_histogram
      else if s = ''line'' then Inr line
      else if s = ''scatter'' then Inr scatter
      else if s = ''pie'' then Inr pie
      else Inl ValueError)"
| "PlotType_call _ = Inl ValueError"

fun get_plotly_plot_type :: "PlotType \<Rightarrow> PlotlyPlotType" where
  "get_plotly_plot_type categorical_histogram = bar"
| "get_plotly_plot_type numeric_histogram = bar"
| "get_plotly_plot_type line = PlotlyPlotType.line"
| "get_plotly_plot_type scatter = PlotlyPlotType.scatter"
| "get_plotly_plot_type pie = PlotlyPlotType.pie"

text \<open>
  \<open>get_plotly_config_and_layout(plot_config)\<close>: every \<open>plot_config.get\<close> raises
  \<open>AttributeError\<close> unless \<open>plot_config\<close> is a dict, and so does \<open>color.get("hex")\<close> for a
  truthy colour that is not one. The result is the dict
  \<open>{"config": config, "layout": layout}\<close>, given by its entries.
\<close>

definition get_plotly_config_and_layout :: "pyval \<Rightarrow> error + (pyval \<times> pyval) list" where
  "get_plotly_config_and_layout plot_config =
     (case plot_config of
        VDict pc \<Rightarrow>
          (let layout0 = [];
               layout1 =
                 (if truthy (dget pc ''plot_title'' VNone)
                  then dict_set layout0 (VStr ''title'') (dget pc ''plot_title'' VNone)
                  else layout0)
           in case (if truthy (dget pc ''color'' VNone)
                    then (case get (dget pc ''color'' VNone) ''hex'' VNone of
                            Inl e \<Rightarrow> Inl e
                          | Inr h \<Rightarrow>
                              Inr (dict_set layout1 (VStr ''marker'') (VDict [(VStr ''color'', h)])))
                    else Inr layout1) of
                Inl e \<Rightarrow> Inl e
              | Inr layout2 \<Rightarrow>
                  (let layout3 =
                         (if truthy (dget pc ''xaxis'' VNone)
                          then dict_set layout2 (VStr ''xaxis'') (dget pc ''xaxis'' VNone)
                          else layout2);
                       layout4 =
                         (if truthy (dget pc ''yaxis'' VNone)
                          then dict_set layout3 (VStr ''yaxis'') (dget pc ''yaxis'' VNone)
                          else layout3);
                       layout5 =
                         (if dget pc ''plot_type'' VNone = VStr ''numeric_histogram''
                          then dict_set (dict_set layout4 (VStr ''bargap'') (VInt 0))
                                 (VStr ''bargroupgap'') (VInt 0)
                          else layout4)
                   in Inr [(VStr ''config'', VDict []), (VStr ''layout'', VDict layout5)]))
      | _ \<Rightarrow> Inl AttributeError)"

section \<open>The widget configuration\<close>

text \<open>
  \<open>DashboardPlotItem\<close>: \<open>type\<close> holds a member of \<open>PlotType\<close>, every other attribute holds
  the value the constructor was given.
\<close>

record DashboardPlotItem =
  name :: pyval
  type :: PlotType
  raw_params :: pyval
  config :: pyval
  layout :: pyval
  use_code :: pyval
  code :: pyval
  update_on_change :: pyval
  x_field :: pyval
  y_field :: pyval
  field :: pyval
  bins :: pyval

text \<open>\<open>DashboardPlotItem.__init__\<close>; the arguments in the order of its signature.\<close>

definition DashboardPlotItem_init ::
  "pyval \<Rightarrow> pyval \<Rightarrow> pyval \<Rightarrow> pyval \<Rightarrow> pyval \<Rightarrow> pyval \<Rightarrow> pyval \<Rightarrow> pyval \<Rightarrow> pyval \<Rightarrow> pyval \<Rightarrow>
   pyval \<Rightarrow> pyval \<Rightarrow> error + DashboardPlotItem" where
  "DashboardPlotItem_init nm ty cfg lay raw uc cd uoc xf yf fld bns =
     (case PlotType_call ty of
        Inl e \<Rightarrow> Inl e
      | Inr t \<Rightarrow>
          Inr \<lparr>name = nm, type = t, raw_params = raw, config = cfg, layout = lay,
               use_code = uc, code = cd, update_on_change = uoc, x_field = xf, y_field = yf,
               field = fld, bins = bns\<rparr>)"

definition from_dict :: "pyval \<Rightarrow> error + DashboardPlotItem" where
  "from_dict dat =
     (case dat of
        VDict d \<Rightarrow>
          DashboardPlotItem_init
            (dget d ''name'' VNone)
            (dget d ''type'' VNone)
            (dget d ''config'' VNone)
            (dget d ''layout'' VNone)
            (dget d ''raw_params'' VNone)
            (dget d ''use_code'' (VBool False))
            (dget d ''code'' VNone)
            (dget d ''update_on_change'' VNone)
            (dget d ''x_field'' VNone)
            (dget d ''y_field'' VNone)
            (dget d ''field'' VNone)
            (dget d ''bins'' (VInt 10))
      | _ \<Rightarrow> Inl AttributeError)"

text \<open>The \<open>label\<close> property: \<open>self.config.get("title", self.name)\<close>.\<close>

definition label :: "DashboardPlotItem \<Rightarrow> error + pyval" where
  "label it = get (config it) ''title'' (name it)"

text \<open>
  \<open>{**self.raw_params, "name": self.name}\<close>: unpacking anything but a mapping raises
  \<open>TypeError\<close>.
\<close>

definition to_configure_plot_params :: "DashboardPlotItem \<Rightarrow> error + pyval" where
  "to_configure_plot_params it =
     (case raw_params it of
        VDict d \<Rightarrow> Inr (VDict (dict_set d (VStr ''name'') (name it)))
      | _ \<Rightarrow> Inl TypeError)"

definition to_dict :: "DashboardPlotItem \<Rightarrow> pyval" where
  "to_dict it =
     VDict
       [(VStr ''name'', name it),
        (VStr ''type'', VStr (PlotType_value (type it))),
        (VStr ''config'', config it),
        (VStr ''layout'', layout it),
        (VStr ''raw_params'', raw_params it),
        (VStr ''use_code'', use_code it),
        (VStr ''code'', code it),
        (VStr ''update_on_change'', update_on_change it),
        (VStr ''x_field'', x_field it),
        (VStr ''y_field'', y_field it),
        (VStr ''field'', field it),
        (VStr ''bins'', bins it)]"

section \<open>The host\<close>

text \<open>
  What the panel sees of the execution context: \<open>ctx.params\<close> (always a dict, given by its
  entries), \<open>ctx.user\<close>, the panel's key/value state and render data, and the prompts the
  panel has opened so far.

  \<open>ctx.user\<close>: the open-source host has no such attribute (\<open>NoUserAttr\<close>); the Teams host
  has it, holding \<open>None\<close> or a user object, which is truthy and carries
  \<open>dataset_permission\<close>.
\<close>

datatype user_attr = NoUserAttr | UserNone | User pyval

datatype callback = on_configure_plot_cb | on_edit_success_cb

record prompt =
  operator_uri :: string
  on_success :: callback
  prompt_params :: "pyval option"

record ctx =
  params :: "(pyval \<times> pyval) list"
  user :: user_attr
  panel_state :: "string \<Rightarrow> pyval option"
  panel_data :: "string \<Rightarrow> pyval option"
  prompts :: "prompt list"

text \<open>
  \<open>panel.get_state(key)\<close> gives \<open>None\<close> for a key never set; \<open>panel.set_state(key, value)\<close>
  stores the value; \<open>panel.batch_set_data(d)\<close> stores each value of \<open>d\<close> at its path, in
  the order of the dict. State and render data are separate stores.
\<close>

definition get_state :: "ctx \<Rightarrow> string \<Rightarrow> pyval" where
  "get_state c k = (case panel_state c k of None \<Rightarrow> VNone | Some v \<Rightarrow> v)"

definition set_state :: "ctx \<Rightarrow> string \<Rightarrow> pyval \<Rightarrow> ctx" where
  "set_state c k v = c\<lparr>panel_state := (panel_state c)(k \<mapsto> v)\<rparr>"

fun batch_set_data :: "ctx \<Rightarrow> (string \<times> pyval) list \<Rightarrow> ctx" where
  "batch_set_data c [] = c"
| "batch_set_data c ((p, v) # pvs) =
     batch_set_data (c\<lparr>panel_data := (panel_data c)(p \<mapsto> v)\<rparr>) pvs"

definition ctx_prompt :: "ctx \<Rightarrow> string \<Rightarrow> callback \<Rightarrow> pyval option \<Rightarrow> ctx" where
  "ctx_prompt c uri cb ps =
     c\<lparr>prompts := prompts c @ [\<lparr>operator_uri = uri, on_success = cb, prompt_params = ps\<rparr>]\<rparr>"

text \<open>
  The argument of \<open>view.values\<close>: a field expression \<open>F(path)\<close> or a plain path.
\<close>

datatype values_arg = F pyval | Path string

text \<open>
  Everything the code calls and this repository does not define is a parameter:
  \<^item> the aggregations of the active view, \<open>count_values\<close> (a dict from value to count, by
    its entries), \<open>histogram_values\<close> (the counts, the bin edges, and the number of values
    outside the bins) and \<open>values\<close> (here \<open>view_values\<close>);
  \<^item> \<open>exec(code, {"ctx": ctx}, local_vars)\<close>: the snippet is handed the live context, so
    it can write to the panel (state and render data) and to everything else the context
    holds. \<open>exec\<close> gives the context the snippet leaves behind, together with the exception
    it raised or the local variables it left;
  \<^item> the arithmetic of numpy and of Python floats: elementwise subtraction of two float
    arrays (\<open>np_subtract\<close> on each pair), \<open>np.sum\<close>, \<open>/\<close> and \<open>*\<close>;
  \<^item> \<open>format_value\<close>, what an f-string makes of a value that is not a string.
\<close>

record host =
  count_values :: "pyval \<Rightarrow> error + (pyval \<times> pyval) list"
  histogram_values :: "pyval \<Rightarrow> pyval \<Rightarrow> error + (int list \<times> real list \<times> pyval)"
  view_values :: "values_arg \<Rightarrow> error + pyval"
  exec :: "pyval \<Rightarrow> ctx \<Rightarrow> ctx \<times> (error + (pyval \<times> pyval) list)"
  np_subtract :: "real \<Rightarrow> real \<Rightarrow> real"
  np_sum :: "pyval list \<Rightarrow> error + pyval"
  truediv :: "pyval \<Rightarrow> pyval \<Rightarrow> error + pyval"
  mul :: "pyval \<Rightarrow> pyval \<Rightarrow> error + pyval"
  format_value :: "pyval \<Rightarrow> string"

text \<open>\<open>f"{k}"\<close>: a string is taken as it is.\<close>

definition fstr :: "host \<Rightarrow> pyval \<Rightarrow> string" where
  "fstr h k = (case k of VStr s \<Rightarrow> s | _ \<Rightarrow> format_value h k)"

text \<open>\<open>[f(v) for v in vs]\<close> where \<open>f\<close> may raise: the first exception ends the loop.\<close>

fun map_result :: "('a \<Rightarrow> error + 'b) \<Rightarrow> 'a list \<Rightarrow> error + 'b list" where
  "map_result f [] = Inr []"
| "map_result f (x # xs) =
     (case f x of
        Inl e \<Rightarrow> Inl e
      | Inr y \<Rightarrow> (case map_result f xs of Inl e \<Rightarrow> Inl e | Inr ys \<Rightarrow> Inr (y # ys)))"

section \<open>The dashboard state\<close>

text \<open>
  \<open>DashboardState\<close>: the context (whose panel it writes to), \<open>_items\<close> (a dict from key to
  widget) and \<open>_data\<close> (a dict from key to chart payload).
\<close>

record DashboardState =
  st_ctx :: ctx
  st_items :: "(pyval \<times> DashboardPlotItem) list"
  st_data :: "(pyval \<times> pyval) list"

text \<open>
  The loop of \<open>__init__\<close> over \<open>items.items()\<close>: \<open>self._items[key] = from_dict(item)\<close>.
  The keys come out of a dict, so they are hashable.
\<close>

fun load_items ::
  "(pyval \<times> pyval) list \<Rightarrow> (pyval \<times> DashboardPlotItem) list \<Rightarrow>
   error + (pyval \<times> DashboardPlotItem) list" where
  "load_items [] acc = Inr acc"
| "load_items ((k, d) # kvs) acc =
     (case from_dict d of
        Inl e \<Rightarrow> Inl e
      | Inr it \<Rightarrow> load_items kvs (dict_set acc k it))"

text \<open>
  \<open>DashboardState.__init__\<close>. A truthy \<open>items_config\<close> that is not a dict has no
  \<open>items\<close> method.
\<close>

definition DashboardState_init :: "ctx \<Rightarrow> error + DashboardState" where
  "DashboardState_init c =
     (let its = get_state c ''items_config'' in
      if truthy its then
        (case its of
           VDict kvs \<Rightarrow>
             (case load_items kvs [] of
                Inl e \<Rightarrow> Inl e
              | Inr m \<Rightarrow> Inr \<lparr>st_ctx = c, st_items = m, st_data = []\<rparr>)
         | _ \<Rightarrow> Inl AttributeError)
      else Inr \<lparr>st_ctx = c, st_items = [], st_data = []\<rparr>)"

definition is_empty :: "DashboardState \<Rightarrow> bool" where
  "is_empty st = (length (st_items st) = 0)"

definition items :: "DashboardState \<Rightarrow> DashboardPlotItem list" where
  "items st = map snd (st_items st)"

definition item_count :: "DashboardState \<Rightarrow> nat" where
  "item_count st = length (st_items st)"

definition items_as_dict :: "DashboardState \<Rightarrow> pyval" where
  "items_as_dict st = VDict (map (\<lambda>(k, v). (k, to_dict v)) (st_items st))"

definition apply_state :: "DashboardState \<Rightarrow> DashboardState" where
  "apply_state st = st\<lparr>st_ctx := set_state (st_ctx st) ''items_config'' (items_as_dict st)\<rparr>"

text \<open>
  \<open>apply_data\<close> hands \<open>{f"items.{k}": v for k, v in self._data.items()}\<close> to
  \<open>batch_set_data\<close>. A path is an opaque key of the render data; should two keys give the
  same path, the later value is the one that stays, in the dict as in the store.
\<close>

definition apply_data :: "host \<Rightarrow> DashboardState \<Rightarrow> DashboardState" where
  "apply_data h st =
     st\<lparr>st_ctx :=
          batch_set_data (st_ctx st)
            (map (\<lambda>(k, v). (''items.'' @ fstr h k, v)) (st_data st))\<rparr>"

text \<open>\<open>self._items.get(item_id, None)\<close>: an unhashable id raises \<open>TypeError\<close>.\<close>

definition get_item :: "DashboardState \<Rightarrow> pyval \<Rightarrow> error + DashboardPlotItem option" where
  "get_item st item_id =
     (if hashable item_id then Inr (dict_get (st_items st) item_id) else Inl TypeError)"

text \<open>
  The methods called inside a \<open>with\<close> block give the state they leave behind and the
  exception they raise, if any: what was mutated before the exception stays mutated.
\<close>

definition remove_item :: "DashboardState \<Rightarrow> pyval \<Rightarrow> DashboardState \<times> error option" where
  "remove_item st item_id =
     (case pop (st_items st) item_id of
        Inl e \<Rightarrow> (st, Some e)
      | Inr m \<Rightarrow> (st\<lparr>st_items := m\<rparr>, None))"

definition clear_items :: "DashboardState \<Rightarrow> DashboardState" where
  "clear_items st = st\<lparr>st_items := []\<rparr>"

text \<open>
  \<open>get_next_item_id\<close>: \<open>f"plot_{random.randint(0, 1000)}"\<close>. The draw is an argument,
  a number from 0 to 1000; \<open>str_of_nat\<close> is the decimal numeral Python prints.
\<close>

fun str_of_nat :: "nat \<Rightarrow> string" where
  "str_of_nat n =
     (if n < 10 then [''0123456789'' ! n]
      else str_of_nat (n div 10) @ [''0123456789'' ! (n mod 10)])"

declare str_of_nat.simps [simp del]

definition get_next_item_id :: "nat \<Rightarrow> string" where
  "get_next_item_id draw = ''plot_'' @ str_of_nat draw"

subsection \<open>Loading chart payloads\<close>

definition load_categorical_histogram_data :: "host \<Rightarrow> DashboardPlotItem \<Rightarrow> error + pyval" where
  "load_categorical_histogram_data h it =
     (if \<not> truthy (field it) then Inr (VDict [])
      else case count_values h (field it) of
        Inl e \<Rightarrow> Inl e
      | Inr counts \<Rightarrow>
          Inr (VDict
            [(VStr ''x'', VList (map fst counts)),
             (VStr ''y'', VList (map snd counts)),
             (VStr ''type'', VStr ''bar'')]))"

text \<open>
  \<open>edges[:-1]\<close> is \<open>butlast edges\<close> and \<open>edges[1:]\<close> is \<open>tl edges\<close>; both have the same
  length, so the subtraction pairs them up one by one.
\<close>

definition load_numeric_histogram_data :: "host \<Rightarrow> DashboardPlotItem \<Rightarrow> error + pyval" where
  "load_numeric_histogram_data h it =
     (if \<not> truthy (x_field it) then Inr (VDict [])
      else case histogram_values h (x_field it) (bins it) of
        Inl e \<Rightarrow> Inl e
      | Inr (counts, edges, other) \<Rightarrow>
          (let left_edges = butlast edges;
               widths = map2 (np_subtract h) (tl edges) (butlast edges)
           in Inr (VDict
                [(VStr ''x'', VList (map VFloat left_edges)),
                 (VStr ''y'', VList (map VInt counts)),
                 (VStr ''type'', VStr ''bar''),
                 (VStr ''width'', VList (map VFloat widths))])))"

definition load_scatter_data :: "host \<Rightarrow> DashboardPlotItem \<Rightarrow> error + pyval" where
  "load_scatter_data h it =
     (case view_values h (F (x_field it)) of
        Inl e \<Rightarrow> Inl e
      | Inr x \<Rightarrow>
          (case view_values h (F (y_field it)) of
             Inl e \<Rightarrow> Inl e
           | Inr y \<Rightarrow>
               (case view_values h (Path ''id'') of
                  Inl e \<Rightarrow> Inl e
                | Inr ids \<Rightarrow>
                    if \<not> truthy x \<or> \<not> truthy y then Inr (VDict [])
                    else Inr (VDict
                      [(VStr ''x'', x),
                       (VStr ''y'', y),
                       (VStr ''ids'', ids),
                       (VStr ''type'', VStr ''scatter''),
                       (VStr ''mode'', VStr ''markers'')]))))"

definition load_line_data :: "host \<Rightarrow> DashboardPlotItem \<Rightarrow> error + pyval" where
  "load_line_data h it =
     (if x_field it = VNone \<or> y_field it = VNone then Inr (VDict [])
      else case view_values h (F (x_field it)) of
        Inl e \<Rightarrow> Inl e
      | Inr x \<Rightarrow>
          (case view_values h (F (y_field it)) of
             Inl e \<Rightarrow> Inl e
           | Inr y \<Rightarrow>
               Inr (VDict [(VStr ''x'', x), (VStr ''y'', y), (VStr ''type'', VStr ''line'')])))"

definition load_pie_data :: "host \<Rightarrow> DashboardPlotItem \<Rightarrow> error + pyval" where
  "load_pie_data h it =
     (if \<not> truthy (field it) then Inr (VDict [])
      else case count_values h (field it) of
        Inl e \<Rightarrow> Inl e
      | Inr counts \<Rightarrow>
          (let vals = map snd counts; keys = map fst counts in
           case np_sum h vals of
             Inl e \<Rightarrow> Inl e
           | Inr sm \<Rightarrow>
               (case truediv h (VFloat 100) sm of
                  Inl e \<Rightarrow> Inl e
                | Inr factor \<Rightarrow>
                    (case map_result (\<lambda>v. mul h v factor) vals of
                       Inl e \<Rightarrow> Inl e
                     | Inr factored_values \<Rightarrow>
                         (case get (config it) ''title'' (VStr ''Pie Chart'') of
                            Inl e \<Rightarrow> Inl e
                          | Inr title \<Rightarrow>
                              Inr (VDict
                                [(VStr ''values'', VList factored_values),
                                 (VStr ''labels'', VList keys),
                                 (VStr ''type'', VStr ''pie''),
                                 (VStr ''name'', title)]))))))"

text \<open>
  \<open>load_data_from_code\<close>: \<open>except Exception\<close> turns every \<open>Exception\<close> of the \<open>try\<close> block
  into the empty payload, the \<open>TypeError\<close> of \<open>data["type"] = ...\<close> on a \<open>data\<close> that is
  not a dict included. The result is the context as the snippet left it, and the payload
  or the exception that escapes.
\<close>

definition load_data_from_code ::
  "host \<Rightarrow> ctx \<Rightarrow> pyval \<Rightarrow> PlotType \<Rightarrow> ctx \<times> (error + pyval)" where
  "load_data_from_code h c cd plot_type =
     (if \<not> truthy cd then (c, Inr (VDict []))
      else case exec h cd c of
        (c', Inl e) \<Rightarrow> (c', if is_Exception e then Inr (VDict []) else Inl e)
      | (c', Inr local_vars) \<Rightarrow>
          (c', case dget local_vars ''data'' (VDict []) of
                 VDict d \<Rightarrow>
                   Inr (VDict (dict_set d (VStr ''type'')
                          (VStr (PlotlyPlotType_value (get_plotly_plot_type plot_type)))))
               | _ \<Rightarrow> Inr (VDict [])))"

text \<open>
  The loaders of a state give the state they leave behind (a snippet may have written to
  its context) and the payload or the exception. The field-driven adapters only read.
\<close>

definition load_plot_data_for_item ::
  "host \<Rightarrow> DashboardState \<Rightarrow> DashboardPlotItem \<Rightarrow> DashboardState \<times> (error + pyval)" where
  "load_plot_data_for_item h st it =
     (if truthy (use_code it) then
        (case load_data_from_code h (st_ctx st) (code it) (type it) of
           (c', r) \<Rightarrow> (st\<lparr>st_ctx := c'\<rparr>, r))
      else if type it = categorical_histogram then (st, load_categorical_histogram_data h it)
      else if type it = numeric_histogram then (st, load_numeric_histogram_data h it)
      else if type it = scatter then (st, load_scatter_data h it)
      else if type it = line then (st, load_line_data h it)
      else if type it = pie then (st, load_pie_data h it)
      else (st, Inr VNone))"

definition load_plot_data ::
  "host \<Rightarrow> DashboardState \<Rightarrow> pyval \<Rightarrow> DashboardState \<times> (error + pyval)" where
  "load_plot_data h st plot_id =
     (case get_item st plot_id of
        Inl e \<Rightarrow> (st, Inl e)
      | Inr None \<Rightarrow> (st, Inr (VDict []))
      | Inr (Some it) \<Rightarrow> load_plot_data_for_item h st it)"

text \<open>\<open>add_plot\<close> and \<open>edit_plot\<close> have the same body.\<close>

definition add_plot :: "host \<Rightarrow> DashboardState \<Rightarrow> DashboardPlotItem \<Rightarrow> DashboardState \<times> error option" where
  "add_plot h st it =
     (case setitem (st_items st) (name it) it of
        Inl e \<Rightarrow> (st, Some e)
      | Inr m \<Rightarrow>
          (case load_plot_data_for_item h (st\<lparr>st_items := m\<rparr>) it of
             (st1, Inl e) \<Rightarrow> (st1, Some e)
           | (st1, Inr d) \<Rightarrow>
               (case setitem (st_data st1) (name it) d of
                  Inl e \<Rightarrow> (st1, Some e)
                | Inr dm \<Rightarrow> (apply_data h (st1\<lparr>st_data := dm\<rparr>), None))))"

definition edit_plot :: "host \<Rightarrow> DashboardState \<Rightarrow> DashboardPlotItem \<Rightarrow> DashboardState \<times> error option" where
  "edit_plot h st it =
     (case setitem (st_items st) (name it) it of
        Inl e \<Rightarrow> (st, Some e)
      | Inr m \<Rightarrow>
          (case load_plot_data_for_item h (st\<lparr>st_items := m\<rparr>) it of
             (st1, Inl e) \<Rightarrow> (st1, Some e)
           | (st1, Inr d) \<Rightarrow>
               (case setitem (st_data st1) (name it) d of
                  Inl e \<Rightarrow> (st1, Some e)
                | Inr dm \<Rightarrow> (apply_data h (st1\<lparr>st_data := dm\<rparr>), None))))"

subsection \<open>The context manager\<close>

text \<open>
  \<open>__exit__\<close> writes the items to the panel state and returns \<open>True\<close>, whatever the
  exception (the message it prints is not modelled).
\<close>

definition DashboardState_exit :: "DashboardState \<Rightarrow> error option \<Rightarrow> DashboardState \<times> bool" where
  "DashboardState_exit st exc = (apply_state st, True)"

text \<open>
  \<open>with DashboardState(ctx) as dashboard_state: body\<close>, by the semantics of the \<open>with\<close>
  statement: an exception of the constructor propagates (the block is not entered); an
  exception of the body is handed to \<open>__exit__\<close> and propagates unless \<open>__exit__\<close> returns
  a true value. The result is the state object after \<open>__exit__\<close>.
\<close>

definition with_DashboardState ::
  "ctx \<Rightarrow> (DashboardState \<Rightarrow> DashboardState \<times> error option) \<Rightarrow> error + DashboardState" where
  "with_DashboardState c body =
     (case DashboardState_init c of
        Inl e \<Rightarrow> Inl e
      | Inr st \<Rightarrow>
          (case body st of
             (st1, exc) \<Rightarrow>
               (case DashboardState_exit st1 exc of
                  (st2, suppress) \<Rightarrow>
                    (case exc of
                       None \<Rightarrow> Inr st2
                     | Some e \<Rightarrow> if suppress then Inr st2 else Inl e))))"

section \<open>The panel\<close>

text \<open>
  \<open>can_edit\<close>: \<open>ctx.user and ctx.user.dataset_permission == "can_edit"\<close> gives the falsy
  \<open>ctx.user\<close> itself (\<open>None\<close>) when there is no user, else the comparison.
\<close>

definition can_edit :: "ctx \<Rightarrow> pyval" where
  "can_edit c =
     (case user c of
        NoUserAttr \<Rightarrow> VBool True
      | UserNone \<Rightarrow> VNone
      | User dataset_permission \<Rightarrow> VBool (dataset_permission = VStr ''can_edit''))"

text \<open>
  The loop of \<open>on_change_view\<close> over \<open>dashboard_state.items\<close>; an exception leaves the loop
  and the handler, with what the snippets run so far have written.
\<close>

fun change_view_loop ::
  "host \<Rightarrow> DashboardState \<Rightarrow> DashboardPlotItem list \<Rightarrow> DashboardState \<times> error option" where
  "change_view_loop h st [] = (st, None)"
| "change_view_loop h st (it # its) =
     (if truthy (update_on_change it) then
        (case load_plot_data h st (name it) of
           (st1, Inl e) \<Rightarrow> (st1, Some e)
         | (st1, Inr d) \<Rightarrow>
             (case setitem (st_data st1) (name it) d of
                Inl e \<Rightarrow> (st1, Some e)
              | Inr dm \<Rightarrow> change_view_loop h (st1\<lparr>st_data := dm\<rparr>) its))
      else change_view_loop h st its)"

text \<open>
  \<open>on_change_view\<close> gives the context it leaves behind and the exception that escapes it,
  if any: it has no \<open>with\<close> block, and a snippet may have written to the context before a
  later widget fails.
\<close>

definition on_change_view :: "host \<Rightarrow> ctx \<Rightarrow> ctx \<times> error option" where
  "on_change_view h c =
     (case DashboardState_init c of
        Inl e \<Rightarrow> (c, Some e)
      | Inr st \<Rightarrow>
          (case change_view_loop h st (items st) of
             (st', Some e) \<Rightarrow> (st_ctx st', Some e)
           | (st', None) \<Rightarrow> (st_ctx (apply_data h st'), None)))"

text \<open>
  Every other handler gives the context it leaves behind, or the exception that escapes
  it; these handlers raise only before they have written anything.
\<close>

definition on_add :: "ctx \<Rightarrow> ctx" where
  "on_add c =
     (if truthy (can_edit c)
      then ctx_prompt c ''@voxel51/custom_dashboard/configure_plot'' on_configure_plot_cb None
      else c)"

text \<open>
  The \<open>DashboardPlotItem(...)\<close> call of \<open>handle_plot_change\<close>; \<open>r\<close> holds the entries of
  \<open>result\<close>. The default of \<open>result.get("name", ...)\<close>, a generated id, is computed
  whether it is used or not.
\<close>

definition new_item ::
  "nat \<Rightarrow> (pyval \<times> pyval) list \<Rightarrow> pyval \<Rightarrow> pyval \<Rightarrow> error + DashboardPlotItem" where
  "new_item draw r plot_config plot_layout =
     (let nm = dget r ''name'' (VStr (get_next_item_id draw)) in
      DashboardPlotItem_init nm
        (dget r ''plot_type'' VNone)
        plot_config
        plot_layout
        (VDict r)
        (dget r ''use_code'' (VBool False))
        (dget r ''code'' VNone)
        (dget r ''update_on_change'' VNone)
        (dget r ''x_field'' VNone)
        (dget r ''y_field'' VNone)
        (dget r ''field'' VNone)
        (dget r ''bins'' (VInt 10)))"

text \<open>The body of the \<open>with\<close> block of \<open>handle_plot_change\<close>.\<close>

definition plot_change_body ::
  "host \<Rightarrow> nat \<Rightarrow> (pyval \<times> pyval) list \<Rightarrow> pyval \<Rightarrow> pyval \<Rightarrow> bool \<Rightarrow> DashboardState \<Rightarrow>
   DashboardState \<times> error option" where
  "plot_change_body h draw r plot_config plot_layout edit st =
     (case new_item draw r plot_config plot_layout of
        Inl e \<Rightarrow> (st, Some e)
      | Inr it \<Rightarrow> if edit then edit_plot h st it else add_plot h st it)"

text \<open>
  \<open>handle_plot_change\<close>, giving the state object that the \<open>with\<close> block leaves. A
  \<open>result\<close> that is not a dict fails in \<open>get_plotly_config_and_layout\<close>, before the block.
\<close>

definition handle_plot_change_state :: "host \<Rightarrow> nat \<Rightarrow> ctx \<Rightarrow> bool \<Rightarrow> error + DashboardState" where
  "handle_plot_change_state h draw c edit =
     (let result = dget (params c) ''result'' VNone in
      case get_plotly_config_and_layout result of
        Inl e \<Rightarrow> Inl e
      | Inr p \<Rightarrow>
          (case result of
             VDict r \<Rightarrow>
               with_DashboardState c
                 (plot_change_body h draw r
                    (dget p ''config'' (VDict [])) (dget p ''layout'' (VDict [])) edit)
           | _ \<Rightarrow> Inl AttributeError))"

definition handle_plot_change :: "host \<Rightarrow> nat \<Rightarrow> ctx \<Rightarrow> bool \<Rightarrow> error + ctx" where
  "handle_plot_change h draw c edit = map_sum id st_ctx (handle_plot_change_state h draw c edit)"

definition on_configure_plot :: "host \<Rightarrow> nat \<Rightarrow> ctx \<Rightarrow> error + ctx" where
  "on_configure_plot h draw c = handle_plot_change h draw c False"

definition on_edit_success :: "host \<Rightarrow> nat \<Rightarrow> ctx \<Rightarrow> error + ctx" where
  "on_edit_success h draw c = handle_plot_change h draw c True"

definition on_edit :: "ctx \<Rightarrow> error + ctx" where
  "on_edit c =
     (let plot_id = dget (params c) ''id'' VNone in
      case DashboardState_init c of
        Inl e \<Rightarrow> Inl e
      | Inr st \<Rightarrow>
          (case get_item st plot_id of
             Inl e \<Rightarrow> Inl e
           | Inr None \<Rightarrow> Inr c
           | Inr (Some it) \<Rightarrow>
               if truthy (can_edit c) then
                 (case to_configure_plot_params it of
                    Inl e \<Rightarrow> Inl e
                  | Inr ps \<Rightarrow>
                      Inr (ctx_prompt c ''@voxel51/custom_dashboard/configure_plot''
                             on_edit_success_cb (Some ps)))
               else Inr c))"

text \<open>
  \<open>on_remove\<close>, giving the state object that the \<open>with\<close> block leaves, if the block is
  entered at all.
\<close>

definition on_remove_state :: "ctx \<Rightarrow> error + DashboardState option" where
  "on_remove_state c =
     (if truthy (can_edit c) then
        (let plot_id = dget (params c) ''id'' VNone in
         map_sum id Some (with_DashboardState c (\<lambda>st. remove_item st plot_id)))
      else Inr None)"

definition on_remove :: "ctx \<Rightarrow> error + ctx" where
  "on_remove c =
     map_sum id (\<lambda>r. case r of None \<Rightarrow> c | Some st \<Rightarrow> st_ctx st) (on_remove_state c)"

subsection \<open>Rendering\<close>

text \<open>
  What \<open>DashboardPlotProperty\<close> and \<open>types.DashboardView\<close> are given. Building the property
  of a widget reads its \<open>label\<close>, which raises when \<open>config\<close> is not a dict.
\<close>

record DashboardPlotProperty =
  prop_name :: pyval
  prop_label :: pyval
  prop_config :: pyval
  prop_layout :: pyval
  x_data_source :: pyval
  y_data_source :: pyval

definition from_item :: "DashboardPlotItem \<Rightarrow> error + DashboardPlotProperty" where
  "from_item it =
     (case label it of
        Inl e \<Rightarrow> Inl e
      | Inr l \<Rightarrow>
          Inr \<lparr>prop_name = name it, prop_label = l, prop_config = config it,
               prop_layout = layout it, x_data_source = x_field it, y_data_source = y_field it\<rparr>)"

record DashboardView =
  properties :: "(pyval \<times> DashboardPlotProperty) list"
  allow_edit :: pyval
  allow_remove :: pyval
  allow_add :: pyval
  width :: int
  height :: pyval

definition render_dashboard :: "ctx \<Rightarrow> error + DashboardView" where
  "render_dashboard c =
     (case DashboardState_init c of
        Inl e \<Rightarrow> Inl e
      | Inr dashboard_state \<Rightarrow>
          (case map_result
                  (\<lambda>it. case from_item it of Inl e \<Rightarrow> Inl e | Inr pr \<Rightarrow> Inr (name it, pr))
                  (items dashboard_state) of
             Inl e \<Rightarrow> Inl e
           | Inr props \<Rightarrow>
               (let user_can_edit = can_edit c in
                Inr \<lparr>properties = props,
                     allow_edit = user_can_edit,
                     allow_remove = user_can_edit,
                     allow_add = user_can_edit,
                     width = 100,
                     height = (if is_empty dashboard_state then VInt 100 else VNone)\<rparr>)))"

section \<open>Well-formed collections and sample inputs\<close>

text \<open>The entries of a Python dict: no two keys are equal.\<close>

fun wf_dict :: "(pyval \<times> 'v) list \<Rightarrow> bool" where
  "wf_dict [] = True"
| "wf_dict ((k, v) # kvs) = (dict_get kvs k = None \<and> wf_dict kvs)"

text \<open>
  A widget collection as the panel itself builds it: every widget is stored under its own
  name (\<open>self._items[item.name] = item\<close>), and the name is a string.
\<close>

fun named_by_key :: "(pyval \<times> DashboardPlotItem) list \<Rightarrow> bool" where
  "named_by_key [] = True"
| "named_by_key ((k, it) # kvs) =
     ((case k of VStr s \<Rightarrow> True | _ \<Rightarrow> False) \<and> name it = k \<and> named_by_key kvs)"

text \<open>
  A widget whose loading writes nothing to the context \<open>c\<close>: it is field-driven, or has no
  snippet to run, or its snippet leaves \<open>c\<close> as it found it.
\<close>

definition leaves_context :: "host \<Rightarrow> ctx \<Rightarrow> DashboardPlotItem \<Rightarrow> bool" where
  "leaves_context h c it =
     (truthy (use_code it) \<and> truthy (code it) \<longrightarrow> fst (exec h (code it) c) = c)"

text \<open>Sample inputs, on which the properties below are run.\<close>

definition ex_line :: DashboardPlotItem where
  "ex_line =
     \<lparr>name = VStr ''plot_7'', type = line, raw_params = VDict [(VStr ''plot_type'', VStr ''line'')],
      config = VDict [], layout = VDict [], use_code = VBool False, code = VNone,
      update_on_change = VBool True, x_field = VStr ''width'', y_field = VStr ''height'',
      field = VNone, bins = VInt 10\<rparr>"

definition ex_hist :: DashboardPlotItem where
  "ex_hist =
     \<lparr>name = VStr ''plot_8'', type = numeric_histogram,
      raw_params = VDict [(VStr ''plot_type'', VStr ''numeric_histogram'')],
      config = VDict [], layout = VDict [], use_code = VBool False, code = VNone,
      update_on_change = VBool False, x_field = VStr ''width'', y_field = VNone,
      field = VNone, bins = VInt 2\<rparr>"

definition ex_snippet :: DashboardPlotItem where
  "ex_snippet =
     \<lparr>name = VStr ''plot_9'', type = pie,
      raw_params = VDict [(VStr ''plot_type'', VStr ''pie''), (VStr ''use_code'', VBool True)],
      config = VDict [], layout = VDict [], use_code = VBool True, code = VStr ''data = dict(x=[3])'',
      update_on_change = VNone, x_field = VNone, y_field = VNone,
      field = VStr ''label'', bins = VInt 10\<rparr>"

definition ex_pie :: "string \<Rightarrow> DashboardPlotItem" where
  "ex_pie nm =
     \<lparr>name = VStr nm, type = pie,
      raw_params = VDict [(VStr ''plot_type'', VStr ''pie''), (VStr ''field'', VStr ''label'')],
      config = VDict [], layout = VDict [], use_code = VBool False, code = VNone,
      update_on_change = VNone, x_field = VNone, y_field = VNone,
      field = VStr ''label'', bins = VInt 10\<rparr>"

definition ex_host :: host where
  "ex_host =
     \<lparr>count_values = (\<lambda>f. Inr [(VStr ''cat'', VInt 2), (VStr ''dog'', VInt 3)]),
      histogram_values = (\<lambda>f b. Inr ([4, 1], [0, 2, 5], VInt 0)),
      view_values = (\<lambda>a. Inr (VList [VInt 1, VInt 2])),
      exec = (\<lambda>cd c. (c, Inr [(VStr ''data'', VDict [(VStr ''x'', VList [VInt 3])])])),
      np_subtract = (\<lambda>a b. a - b),
      np_sum = (\<lambda>vs. Inr (VInt 5)),
      truediv = (\<lambda>a b. Inr (VFloat 20)),
      mul = (\<lambda>a b. Inr a),
      format_value = (\<lambda>v. ''?'')\<rparr>"


definition ex_ctx :: ctx where
  "ex_ctx =
     \<lparr>params = [(VStr ''id'', VStr ''plot_7''),
                (VStr ''result'',
                 VDict [(VStr ''plot_type'', VStr ''pie''), (VStr ''field'', VStr ''label'')])],
      user = NoUserAttr,
      panel_state =
        (\<lambda>k. if k = ''items_config''
             then Some (VDict [(VStr ''plot_7'', to_dict ex_line), (VStr ''plot_8'', to_dict ex_hist)])
             else None),
      panel_data = (\<lambda>p. None),
      prompts = []\<rparr>"

definition ex_viewer_ctx :: ctx where
  "ex_viewer_ctx = ex_ctx\<lparr>user := User (VStr ''can_view'')\<rparr>"

definition ex_absent_ctx :: ctx where
  "ex_absent_ctx = ex_ctx\<lparr>params := [(VStr ''id'', VStr ''plot_9'')]\<rparr>"

definition ex_rendered_ctx :: ctx where
  "ex_rendered_ctx =
     ex_ctx\<lparr>panel_data :=
       (\<lambda>p. if p = ''items.plot_8'' then Some (VDict [(VStr ''type'', VStr ''bar'')]) else None)\<rparr>"

definition ex_state :: DashboardState where
  "ex_state =
     \<lparr>st_ctx = ex_ctx,
      st_items = [(VStr ''plot_7'', ex_line), (VStr ''plot_8'', ex_hist)],
      st_data = []\<rparr>"


text \<open>
  Two snippet widgets that refresh on a change of view, one whose snippet only computes
  its payload and one whose snippet also writes to the panel; a host that runs these two
  snippets; a panel holding each of them beside the histogram; a panel state in which a
  widget is stored under a key that is not its name; and a panel that has never stored
  anything.
\<close>

definition ex_flagged_snippet :: DashboardPlotItem where
  "ex_flagged_snippet = ex_snippet\<lparr>update_on_change := VBool True\<rparr>"

definition ex_writing_snippet :: DashboardPlotItem where
  "ex_writing_snippet =
     ex_snippet\<lparr>code := VStr ''ctx.panel.set_state('items_config', {}); ctx.panel.set_data('items.plot_8', 'overwritten'); data = dict(x=[3])'',
                update_on_change := VBool True\<rparr>"

definition ex_writing_host :: host where
  "ex_writing_host =
     ex_host\<lparr>exec := (\<lambda>cd c.
       if cd = code ex_writing_snippet
       then (batch_set_data (set_state c ''items_config'' (VDict []))
               [(''items.plot_8'', VStr ''overwritten'')],
             Inr [(VStr ''data'', VDict [(VStr ''x'', VList [VInt 3])])])
       else (c, Inr [(VStr ''data'', VDict [(VStr ''x'', VList [VInt 3])])]))\<rparr>"

definition ex_snippet_ctx :: ctx where
  "ex_snippet_ctx =
     ex_rendered_ctx\<lparr>panel_state :=
       (\<lambda>k. if k = ''items_config''
            then Some (VDict [(VStr ''plot_9'', to_dict ex_flagged_snippet),
                              (VStr ''plot_8'', to_dict ex_hist)])
            else None)\<rparr>"

definition ex_writing_ctx :: ctx where
  "ex_writing_ctx =
     ex_rendered_ctx\<lparr>panel_state :=
       (\<lambda>k. if k = ''items_config''
            then Some (VDict [(VStr ''plot_9'', to_dict ex_writing_snippet),
                              (VStr ''plot_8'', to_dict ex_hist)])
            else None)\<rparr>"

definition ex_alias :: DashboardPlotItem where
  "ex_alias = ex_line\<lparr>name := VStr ''plot_8''\<rparr>"

definition ex_alias_ctx :: ctx where
  "ex_alias_ctx =
     ex_rendered_ctx\<lparr>panel_state :=
       (\<lambda>k. if k = ''items_config''
            then Some (VDict [(VStr ''plot_7'', to_dict ex_alias),
                              (VStr ''plot_8'', to_dict ex_hist)])
            else None)\<rparr>"

definition ex_fresh_ctx :: ctx where
  "ex_fresh_ctx =
     \<lparr>params = [(VStr ''id'', VStr ''plot_9'')], user = NoUserAttr,
      panel_state = (\<lambda>k. None), panel_data = (\<lambda>p. None), prompts = []\<rparr>"

section \<open>Properties\<close>

subsection \<open>Dictionaries\<close>

lemma key_eq_VStr: "key_eq (VStr a) (VStr b) = (a = b)"
  by (simp add: key_eq_def)

lemma key_eq_refl: "key_eq a a"
  by (simp add: key_eq_def split: option.splits)

lemma key_eq_sym: "key_eq a b = key_eq b a"
  by (auto simp add: key_eq_def split: option.splits)

lemma key_eq_trans: "key_eq a b \<Longrightarrow> key_eq b c \<Longrightarrow> key_eq a c"
  by (auto simp add: key_eq_def split: option.splits)

lemma key_eq_cong1: "key_eq k k' \<Longrightarrow> key_eq a k = key_eq a k'"
  by (auto simp add: key_eq_def split: option.splits)

lemma dict_get_key_eq: "key_eq k k' \<Longrightarrow> dict_get d k = dict_get d k'"
  by (induction d) (auto simp: key_eq_cong1)

lemma dict_get_append:
  "dict_get (a @ b) k = (case dict_get a k of None \<Rightarrow> dict_get b k | Some v \<Rightarrow> Some v)"
  by (induction a) auto

lemma dict_set_fresh: "dict_get d k = None \<Longrightarrow> dict_set d k v = d @ [(k, v)]"
  by (induction d) (auto split: if_splits)

lemma dict_get_set:
  "dict_get (dict_set d k v) k' = (if key_eq k k' then Some v else dict_get d k')"
  by (induction d) (auto, (metis key_eq_sym key_eq_trans)+)

lemma length_dict_set:
  "length (dict_set d k v) = (if dict_get d k = None then Suc (length d) else length d)"
  by (induction d) (auto split: if_splits)

lemma dict_get_del:
  "wf_dict d \<Longrightarrow> dict_get (dict_del d k) k' = (if key_eq k k' then None else dict_get d k')"
proof (induction d)
  case Nil
  then show ?case by simp
next
  case (Cons kv d)
  obtain a b where kv: "kv = (a, b)" by (cases kv)
  show ?case
  proof (cases "key_eq a k")
    case True
    with Cons.prems kv have "dict_get d k = None" by (simp add: dict_get_key_eq [of a k])
    with True Cons.prems kv show ?thesis
      by (auto simp: dict_get_key_eq [of k k'], (metis key_eq_sym key_eq_trans)+)
  next
    case False
    with Cons kv show ?thesis by (auto, (metis key_eq_sym key_eq_trans)+)
  qed
qed

lemma wf_dict_set: "wf_dict d \<Longrightarrow> wf_dict (dict_set d k v)"
  by (induction d) (auto simp: dict_get_set key_eq_sym [of k])

lemma wf_dict_del: "wf_dict d \<Longrightarrow> wf_dict (dict_del d k)"
  by (induction d) (auto simp: dict_get_del)

lemma wf_dict_append_fresh: "wf_dict (acc @ (k, v) # m) \<Longrightarrow> dict_get acc k = None"
  by (induction acc) (auto simp: dict_get_append key_eq_sym [of k] split: option.splits if_splits)

subsection \<open>Serialization\<close>

lemma PlotType_call_value: "PlotType_call (VStr (PlotType_value t)) = Inr t"
  by (cases t) simp_all

lemma PlotType_call_Inr: "PlotType_call v = Inr t \<Longrightarrow> v = VStr (PlotType_value t)"
  by (cases v) (auto split: if_splits)

lemma from_dict_to_dict: "from_dict (to_dict it) = Inr it"
  by (simp add: from_dict_def to_dict_def dget_def key_eq_VStr DashboardPlotItem_init_def
      PlotType_call_value del: PlotType_call.simps)

lemma load_items_serialized:
  "wf_dict (acc @ m) \<Longrightarrow> load_items (map (\<lambda>(k, v). (k, to_dict v)) m) acc = Inr (acc @ m)"
proof (induction m arbitrary: acc)
  case Nil
  then show ?case by simp
next
  case (Cons kv m)
  obtain k v where kv: "kv = (k, v)" by (cases kv)
  from Cons.prems kv have fresh: "dict_get acc k = None"
    by (simp add: wf_dict_append_fresh)
  from Cons.prems kv have "wf_dict ((acc @ [(k, v)]) @ m)" by simp
  then have "load_items (map (\<lambda>(k, v). (k, to_dict v)) m) (acc @ [(k, v)]) = Inr ((acc @ [(k, v)]) @ m)"
    by (rule Cons.IH)
  with fresh kv show ?case
    by (simp add: from_dict_to_dict dict_set_fresh)
qed

lemma init_after_apply_state:
  assumes "wf_dict (st_items st)"
  shows "DashboardState_init (st_ctx (apply_state st)) =
         Inr \<lparr>st_ctx = st_ctx (apply_state st), st_items = st_items st, st_data = []\<rparr>"
proof -
  have g: "get_state (st_ctx (apply_state st)) ''items_config'' = items_as_dict st"
    by (simp add: apply_state_def get_state_def set_state_def)
  from assms have "load_items (map (\<lambda>(k, v). (k, to_dict v)) (st_items st)) [] = Inr (st_items st)"
    using load_items_serialized [of "[]" "st_items st"] by simp
  then show ?thesis
    unfolding DashboardState_init_def g by (simp add: items_as_dict_def Let_def)
qed

text \<open>
  C3. Serialization round-trips: \<open>from_dict(item.to_dict())\<close> is the item itself, equal in
  every attribute (the record holds all twelve, and \<open>type\<close> is a member of \<open>PlotType\<close> by
  its type); and the collection that \<open>apply_state\<close> writes under \<open>items_config\<close> is loaded
  back by \<open>DashboardState.__init__\<close> as the same collection, key by key and in the same
  order.
\<close>

theorem C3_serialization_roundtrip:
  "from_dict (to_dict it) = Inr it \<and>
   (wf_dict (st_items st) \<longrightarrow>
      DashboardState_init (st_ctx (apply_state st)) =
      Inr \<lparr>st_ctx = st_ctx (apply_state st), st_items = st_items st, st_data = []\<rparr>)"
  by (simp add: from_dict_to_dict init_after_apply_state)

theorem C3_serialization_roundtrip_witness:
  "wf_dict (st_items ex_state) \<and>
   from_dict (to_dict ex_hist) = Inr ex_hist \<and>
   DashboardState_init (st_ctx (apply_state ex_state)) =
   Inr \<lparr>st_ctx = st_ctx (apply_state ex_state),
        st_items = [(VStr ''plot_7'', ex_line), (VStr ''plot_8'', ex_hist)], st_data = []\<rparr>"
proof -
  have w: "wf_dict (st_items ex_state)"
    by (simp add: ex_state_def key_eq_VStr)
  with C3_serialization_roundtrip [of ex_hist ex_state] show ?thesis
    by (simp add: ex_state_def)
qed

subsection \<open>The enumeration of chart kinds\<close>

lemma PlotType_call_outside:
  "ty \<notin> {VStr ''categorical_histogram'', VStr ''numeric_histogram'', VStr ''line'',
          VStr ''scatter'', VStr ''pie''} \<Longrightarrow> PlotType_call ty = Inl ValueError"
  by (cases ty) auto

lemma PlotType_value_inside:
  "VStr (PlotType_value t) \<in> {VStr ''categorical_histogram'', VStr ''numeric_histogram'',
          VStr ''line'', VStr ''scatter'', VStr ''pie''}"
  by (cases t) auto

lemma to_dict_type: "get (to_dict it) ''type'' VNone = Inr (VStr (PlotType_value (type it)))"
  by (simp add: to_dict_def dget_def key_eq_VStr)

text \<open>
  C8. The chart kind is confined to the enumeration. A \<open>type\<close> that is not one of the five
  values makes the constructor raise \<open>ValueError\<close>, and with it \<open>from_dict\<close> and the body
  of \<open>handle_plot_change\<close>, which then leaves the state as it was; a constructor that
  returns has stored the member whose value is the \<open>type\<close> it was given. So the kind of
  every widget of a state, and the \<open>type\<close> entry of its serialization, is one of the five
  values.
\<close>

theorem C8_type_enumeration:
  "(ty \<notin> {VStr ''categorical_histogram'', VStr ''numeric_histogram'', VStr ''line'',
           VStr ''scatter'', VStr ''pie''} \<longrightarrow>
      DashboardPlotItem_init nm ty cfg lay raw uc cd uoc xf yf fld bns = Inl ValueError \<and>
      (dget d ''type'' VNone = ty \<longrightarrow> from_dict (VDict d) = Inl ValueError) \<and>
      (dget r ''plot_type'' VNone = ty \<longrightarrow>
         plot_change_body h draw r pcfg play edit st = (st, Some ValueError))) \<and>
   (DashboardPlotItem_init nm ty cfg lay raw uc cd uoc xf yf fld bns = Inr it \<longrightarrow>
      ty = VStr (PlotType_value (type it))) \<and>
   (\<forall>w \<in> set (items st).
      VStr (PlotType_value (type w)) \<in>
        {VStr ''categorical_histogram'', VStr ''numeric_histogram'', VStr ''line'',
         VStr ''scatter'', VStr ''pie''} \<and>
      get (to_dict w) ''type'' VNone = Inr (VStr (PlotType_value (type w))))"
proof (intro conjI impI ballI)
  assume out: "ty \<notin> {VStr ''categorical_histogram'', VStr ''numeric_histogram'', VStr ''line'',
           VStr ''scatter'', VStr ''pie''}"
  then have e: "PlotType_call ty = Inl ValueError" by (rule PlotType_call_outside)
  then show "DashboardPlotItem_init nm ty cfg lay raw uc cd uoc xf yf fld bns = Inl ValueError"
    by (simp add: DashboardPlotItem_init_def)
  { assume "dget d ''type'' VNone = ty"
    with e show "from_dict (VDict d) = Inl ValueError"
      by (simp add: from_dict_def DashboardPlotItem_init_def) }
  { assume "dget r ''plot_type'' VNone = ty"
    with e show "plot_change_body h draw r pcfg play edit st = (st, Some ValueError)"
      by (simp add: plot_change_body_def new_item_def DashboardPlotItem_init_def) }
next
  assume "DashboardPlotItem_init nm ty cfg lay raw uc cd uoc xf yf fld bns = Inr it"
  then show "ty = VStr (PlotType_value (type it))"
    by (auto simp: DashboardPlotItem_init_def split: sum.splits dest: PlotType_call_Inr)
next
  fix w :: DashboardPlotItem
  show "VStr (PlotType_value (type w)) \<in>
        {VStr ''categorical_histogram'', VStr ''numeric_histogram'', VStr ''line'',
         VStr ''scatter'', VStr ''pie''}"
    by (rule PlotType_value_inside)
  show "get (to_dict w) ''type'' VNone = Inr (VStr (PlotType_value (type w)))"
    by (rule to_dict_type)
qed

theorem C8_type_enumeration_witness:
  "VStr ''heatmap'' \<notin> {VStr ''categorical_histogram'', VStr ''numeric_histogram'', VStr ''line'',
           VStr ''scatter'', VStr ''pie''} \<and>
   DashboardPlotItem_init (VStr ''plot_1'') (VStr ''heatmap'') (VDict []) (VDict []) VNone
     (VBool False) VNone VNone VNone VNone VNone (VInt 10) = Inl ValueError \<and>
   from_dict (VDict [(VStr ''name'', VStr ''plot_1''), (VStr ''type'', VStr ''heatmap'')])
     = Inl ValueError \<and>
   plot_change_body ex_host 3 [(VStr ''plot_type'', VStr ''heatmap'')] (VDict []) (VDict [])
     False ex_state = (ex_state, Some ValueError) \<and>
   DashboardPlotItem_init (VStr ''plot_8'') (VStr ''numeric_histogram'') (VDict []) (VDict [])
     (VDict [(VStr ''plot_type'', VStr ''numeric_histogram'')])
     (VBool False) VNone (VBool False) (VStr ''width'') VNone VNone (VInt 2) = Inr ex_hist \<and>
   ex_hist \<in> set (items ex_state) \<and>
   get (to_dict ex_hist) ''type'' VNone = Inr (VStr ''numeric_histogram'')"
  using C8_type_enumeration [of "VStr ''heatmap''" "VStr ''plot_1''" "VDict []" "VDict []" VNone
      "VBool False" VNone VNone VNone VNone VNone "VInt 10"
      "[(VStr ''name'', VStr ''plot_1''), (VStr ''type'', VStr ''heatmap'')]"
      "[(VStr ''plot_type'', VStr ''heatmap'')]" ex_host 3 "VDict []" "VDict []" False ex_state
      ex_hist]
  by (simp add: dget_def key_eq_VStr items_def ex_state_def ex_hist_def DashboardPlotItem_init_def)


subsection \<open>Loading\<close>

lemma adapters_ignore_code:
  "load_categorical_histogram_data h (it\<lparr>code := cd\<rparr>) = load_categorical_histogram_data h it"
  "load_numeric_histogram_data h (it\<lparr>code := cd\<rparr>) = load_numeric_histogram_data h it"
  "load_scatter_data h (it\<lparr>code := cd\<rparr>) = load_scatter_data h it"
  "load_line_data h (it\<lparr>code := cd\<rparr>) = load_line_data h it"
  "load_pie_data h (it\<lparr>code := cd\<rparr>) = load_pie_data h it"
  by (simp_all add: load_categorical_histogram_data_def load_numeric_histogram_data_def
      load_scatter_data_def load_line_data_def load_pie_data_def cong: sum.case_cong)

text \<open>
  C5. \<open>use_code\<close> alone selects the mode of \<open>load_plot_data_for_item\<close>. When it is truthy
  the payload is what \<open>load_data_from_code\<close> makes of the stored snippet and the kind
  (and the context is what the snippet left), and the field bindings and the bin count
  make no difference; when it is falsy the payload comes from the adapter of the widget's
  kind, the state is left alone, and the snippet makes no difference.
\<close>

theorem C5_use_code_selects_mode:
  "(truthy (use_code it) \<longrightarrow>
      load_plot_data_for_item h st it =
        (case load_data_from_code h (st_ctx st) (code it) (type it) of
           (c', r) \<Rightarrow> (st\<lparr>st_ctx := c'\<rparr>, r)) \<and>
      load_plot_data_for_item h st (it\<lparr>x_field := xf, y_field := yf, field := fld, bins := bns\<rparr>) =
        load_plot_data_for_item h st it) \<and>
   (\<not> truthy (use_code it) \<longrightarrow>
      load_plot_data_for_item h st it =
        (st, case type it of
               categorical_histogram \<Rightarrow> load_categorical_histogram_data h it
             | numeric_histogram \<Rightarrow> load_numeric_histogram_data h it
             | scatter \<Rightarrow> load_scatter_data h it
             | line \<Rightarrow> load_line_data h it
             | pie \<Rightarrow> load_pie_data h it) \<and>
      load_plot_data_for_item h st (it\<lparr>code := cd\<rparr>) = load_plot_data_for_item h st it)"
proof (intro conjI impI)
  assume "truthy (use_code it)"
  then show "load_plot_data_for_item h st it =
        (case load_data_from_code h (st_ctx st) (code it) (type it) of
           (c', r) \<Rightarrow> (st\<lparr>st_ctx := c'\<rparr>, r))"
    and "load_plot_data_for_item h st (it\<lparr>x_field := xf, y_field := yf, field := fld, bins := bns\<rparr>) =
        load_plot_data_for_item h st it"
    by (simp_all add: load_plot_data_for_item_def)
next
  assume f: "\<not> truthy (use_code it)"
  then show "load_plot_data_for_item h st it =
        (st, case type it of
               categorical_histogram \<Rightarrow> load_categorical_histogram_data h it
             | numeric_histogram \<Rightarrow> load_numeric_histogram_data h it
             | scatter \<Rightarrow> load_scatter_data h it
             | line \<Rightarrow> load_line_data h it
             | pie \<Rightarrow> load_pie_data h it)"
    by (cases "type it") (simp_all add: load_plot_data_for_item_def)
  from f show "load_plot_data_for_item h st (it\<lparr>code := cd\<rparr>) = load_plot_data_for_item h st it"
    by (simp add: load_plot_data_for_item_def adapters_ignore_code)
qed

theorem C5_use_code_selects_mode_witness:
  "truthy (use_code ex_snippet) \<and>
   load_plot_data_for_item ex_host ex_state ex_snippet =
     (ex_state, Inr (VDict [(VStr ''x'', VList [VInt 3]), (VStr ''type'', VStr ''pie'')])) \<and>
   load_plot_data_for_item ex_host ex_state (ex_snippet\<lparr>x_field := VStr ''a'', y_field := VStr ''b'',
       field := VNone, bins := VInt 3\<rparr>) =
     (ex_state, Inr (VDict [(VStr ''x'', VList [VInt 3]), (VStr ''type'', VStr ''pie'')])) \<and>
   \<not> truthy (use_code ex_line) \<and>
   load_plot_data_for_item ex_host ex_state ex_line =
     (ex_state,
      Inr (VDict [(VStr ''x'', VList [VInt 1, VInt 2]), (VStr ''y'', VList [VInt 1, VInt 2]),
                  (VStr ''type'', VStr ''line'')])) \<and>
   load_plot_data_for_item ex_host ex_state (ex_line\<lparr>code := VStr ''data = 1''\<rparr>) =
     (ex_state,
      Inr (VDict [(VStr ''x'', VList [VInt 1, VInt 2]), (VStr ''y'', VList [VInt 1, VInt 2]),
                  (VStr ''type'', VStr ''line'')]))"
proof -
  have a: "truthy (use_code ex_snippet)" by (simp add: ex_snippet_def)
  have b: "\<not> truthy (use_code ex_line)" by (simp add: ex_line_def)
  have c: "load_data_from_code ex_host (st_ctx ex_state) (code ex_snippet) (type ex_snippet) =
     (st_ctx ex_state, Inr (VDict [(VStr ''x'', VList [VInt 3]), (VStr ''type'', VStr ''pie'')]))"
    by (simp add: load_data_from_code_def ex_host_def ex_snippet_def dget_def key_eq_VStr)
  have d: "load_line_data ex_host ex_line =
     Inr (VDict [(VStr ''x'', VList [VInt 1, VInt 2]), (VStr ''y'', VList [VInt 1, VInt 2]),
                 (VStr ''type'', VStr ''line'')])"
    by (simp add: load_line_data_def ex_host_def ex_line_def)
  have e: "type ex_line = line" by (simp add: ex_line_def)
  from a b c d e
    C5_use_code_selects_mode [where it = ex_snippet and h = ex_host and st = ex_state
      and xf = "VStr ''a''" and yf = "VStr ''b''" and fld = VNone and bns = "VInt 3"]
    C5_use_code_selects_mode [where it = ex_line and h = ex_host and st = ex_state
      and cd = "VStr ''data = 1''"]
  show ?thesis by simp
qed

text \<open>
  C4. For a widget with a truthy \<open>x_field\<close>, whenever the host's histogram returns
  \<open>(counts, edges, other)\<close> the payload is \<open>{"x": xs, "y": counts, "type": "bar",
  "width": ws}\<close> with one entry per bin: \<open>xs[i]\<close> is the left edge \<open>edges[i]\<close> and \<open>ws[i]\<close>
  is \<open>edges[i+1] - edges[i]\<close>, the subtraction being numpy's. With a falsy \<open>x_field\<close>
  (\<open>None\<close> included) the payload is the empty dict. This adapter is the one a
  field-driven \<open>numeric_histogram\<close> widget is loaded by, and it leaves the state alone.
\<close>

theorem C4_numeric_histogram_payload:
  "(truthy (x_field it) \<and> histogram_values h (x_field it) (bins it) = Inr (counts, edges, other) \<longrightarrow>
      (\<exists>xs ws.
         load_numeric_histogram_data h it =
           Inr (VDict [(VStr ''x'', VList xs), (VStr ''y'', VList (map VInt counts)),
                       (VStr ''type'', VStr ''bar''), (VStr ''width'', VList ws)]) \<and>
         length xs = length edges - 1 \<and> length ws = length edges - 1 \<and>
         (\<forall>i < length edges - 1.
            xs ! i = VFloat (edges ! i) \<and>
            ws ! i = VFloat (np_subtract h (edges ! Suc i) (edges ! i))))) \<and>
   (\<not> truthy (x_field it) \<longrightarrow> load_numeric_histogram_data h it = Inr (VDict [])) \<and>
   (type it = numeric_histogram \<and> \<not> truthy (use_code it) \<longrightarrow>
      load_plot_data_for_item h st it = (st, load_numeric_histogram_data h it))"
proof (intro conjI impI)
  assume a: "truthy (x_field it) \<and> histogram_values h (x_field it) (bins it) = Inr (counts, edges, other)"
  let ?xs = "map VFloat (butlast edges)"
  let ?ws = "map VFloat (map2 (np_subtract h) (tl edges) (butlast edges))"
  have l: "load_numeric_histogram_data h it =
           Inr (VDict [(VStr ''x'', VList ?xs), (VStr ''y'', VList (map VInt counts)),
                       (VStr ''type'', VStr ''bar''), (VStr ''width'', VList ?ws)])"
    using a by (simp add: load_numeric_histogram_data_def)
  have n: "\<forall>i < length edges - 1.
            ?xs ! i = VFloat (edges ! i) \<and>
            ?ws ! i = VFloat (np_subtract h (edges ! Suc i) (edges ! i))"
    by (simp add: nth_butlast nth_tl)
  have len: "length ?xs = length edges - 1" "length ?ws = length edges - 1"
    by simp_all
  from l n len show "\<exists>xs ws.
         load_numeric_histogram_data h it =
           Inr (VDict [(VStr ''x'', VList xs), (VStr ''y'', VList (map VInt counts)),
                       (VStr ''type'', VStr ''bar''), (VStr ''width'', VList ws)]) \<and>
         length xs = length edges - 1 \<and> length ws = length edges - 1 \<and>
         (\<forall>i < length edges - 1.
            xs ! i = VFloat (edges ! i) \<and>
            ws ! i = VFloat (np_subtract h (edges ! Suc i) (edges ! i)))"
    by blast
next
  assume "\<not> truthy (x_field it)"
  then show "load_numeric_histogram_data h it = Inr (VDict [])"
    by (simp add: load_numeric_histogram_data_def)
next
  assume "type it = numeric_histogram \<and> \<not> truthy (use_code it)"
  then show "load_plot_data_for_item h st it = (st, load_numeric_histogram_data h it)"
    by (simp add: load_plot_data_for_item_def)
qed


theorem C4_numeric_histogram_payload_witness:
  "truthy (x_field ex_hist) \<and>
   histogram_values ex_host (x_field ex_hist) (bins ex_hist) = Inr ([4, 1], [0, 2, 5], VInt 0) \<and>
   load_numeric_histogram_data ex_host ex_hist =
     Inr (VDict [(VStr ''x'', VList [VFloat 0, VFloat 2]), (VStr ''y'', VList [VInt 4, VInt 1]),
                 (VStr ''type'', VStr ''bar''), (VStr ''width'', VList [VFloat 2, VFloat 3])]) \<and>
   \<not> truthy (x_field ex_snippet) \<and>
   load_numeric_histogram_data ex_host ex_snippet = Inr (VDict []) \<and>
   type ex_hist = numeric_histogram \<and> \<not> truthy (use_code ex_hist) \<and>
   load_plot_data_for_item ex_host ex_state ex_hist =
     (ex_state, load_numeric_histogram_data ex_host ex_hist)"
proof -
  have a: "truthy (x_field ex_hist)" "\<not> truthy (x_field ex_snippet)"
    "type ex_hist = numeric_histogram" "\<not> truthy (use_code ex_hist)"
    by (simp_all add: ex_hist_def ex_snippet_def)
  have b: "histogram_values ex_host (x_field ex_hist) (bins ex_hist) = Inr ([4, 1], [0, 2, 5], VInt 0)"
    by (simp add: ex_host_def)
  have c: "np_subtract ex_host = (\<lambda>a b. a - b)" by (simp add: ex_host_def)
  from a b C4_numeric_histogram_payload [where it = ex_hist and h = ex_host and st = ex_state
      and counts = "[4, 1]" and edges = "[0, 2, 5]" and other = "VInt 0"]
  obtain xs ws where
    l: "load_numeric_histogram_data ex_host ex_hist =
           Inr (VDict [(VStr ''x'', VList xs), (VStr ''y'', VList [VInt 4, VInt 1]),
                       (VStr ''type'', VStr ''bar''), (VStr ''width'', VList ws)])"
    and n: "length xs = 2" "length ws = 2"
    and e: "\<forall>i<2. xs ! i = VFloat ([0, 2, 5] ! i) \<and>
              ws ! i = VFloat (np_subtract ex_host ([0, 2, 5] ! Suc i) ([0, 2, 5] ! i))"
    and d: "load_plot_data_for_item ex_host ex_state ex_hist =
              (ex_state, load_numeric_histogram_data ex_host ex_hist)"
    by auto
  from e have e0: "xs ! 0 = VFloat 0" "ws ! 0 = VFloat 2" and e1: "xs ! 1 = VFloat 2" "ws ! 1 = VFloat 3"
    by (simp_all add: c)
  from n e0 e1 have "xs = [VFloat 0, VFloat 2]" "ws = [VFloat 2, VFloat 3]"
    by (auto simp: nth_equalityI less_Suc_eq length_Suc_conv numeral_2_eq_2)
  with l a b d
    C4_numeric_histogram_payload [where it = ex_snippet and h = ex_host]
  show ?thesis by simp
qed

subsection \<open>Panel state and render data\<close>

lemma panel_state_batch_set_data: "panel_state (batch_set_data c pvs) = panel_state c"
  by (induction pvs arbitrary: c) auto

lemma panel_data_batch_set_data:
  "p \<notin> fst ` set pvs \<Longrightarrow> panel_data (batch_set_data c pvs) p = panel_data c p"
  by (induction pvs arbitrary: c) auto

lemma frame_batch_set_data:
  "params (batch_set_data c pvs) = params c"
  "user (batch_set_data c pvs) = user c"
  "prompts (batch_set_data c pvs) = prompts c"
  by (induction pvs arbitrary: c) auto

lemma load_plot_data_for_item_frame:
  "st_items (fst (load_plot_data_for_item h st it)) = st_items st"
  "st_data (fst (load_plot_data_for_item h st it)) = st_data st"
  by (simp_all add: load_plot_data_for_item_def split: prod.splits)

lemma st_items_add_plot:
  "st_items (fst (add_plot h st it)) =
     (if hashable (name it) then dict_set (st_items st) (name it) it else st_items st)"
proof (cases "hashable (name it)")
  case False
  then show ?thesis by (simp add: add_plot_def setitem_def)
next
  case True
  obtain st1 r where l: "load_plot_data_for_item h (st\<lparr>st_items := dict_set (st_items st) (name it) it\<rparr>) it = (st1, r)"
    by (cases "load_plot_data_for_item h (st\<lparr>st_items := dict_set (st_items st) (name it) it\<rparr>) it")
  with load_plot_data_for_item_frame(1)
    [of h "st\<lparr>st_items := dict_set (st_items st) (name it) it\<rparr>" it]
  have "st_items st1 = dict_set (st_items st) (name it) it" by simp
  with True l show ?thesis
    by (cases r) (simp_all add: add_plot_def setitem_def apply_data_def)
qed

lemma edit_plot_add_plot: "edit_plot h st it = add_plot h st it"
  by (simp add: edit_plot_def add_plot_def)

lemma st_items_edit_plot:
  "st_items (fst (edit_plot h st it)) =
     (if hashable (name it) then dict_set (st_items st) (name it) it else st_items st)"
  by (simp add: edit_plot_add_plot st_items_add_plot)


lemma with_DashboardState_result:
  "with_DashboardState c body =
     (case DashboardState_init c of Inl e \<Rightarrow> Inl e | Inr st \<Rightarrow> Inr (apply_state (fst (body st))))"
  by (simp add: with_DashboardState_def DashboardState_exit_def split: sum.splits prod.splits option.splits)





subsection \<open>Permissions\<close>

lemma can_edit_truthy:
  "truthy (can_edit c) = (user c = NoUserAttr \<or> user c = User (VStr ''can_edit''))"
  by (cases "user c") (auto simp: can_edit_def)

lemma render_dashboard_allow:
  "render_dashboard c = Inr v \<Longrightarrow>
     allow_add v = can_edit c \<and> allow_edit v = can_edit c \<and> allow_remove v = can_edit c"
  by (auto simp: render_dashboard_def Let_def split: sum.splits)

text \<open>
  C10. \<open>can_edit\<close> is \<open>True\<close> when the context has no \<open>user\<close> attribute; otherwise it is
  truthy exactly when there is a user whose \<open>dataset_permission\<close> is \<open>"can_edit"\<close>.
  \<open>on_add\<close> opens the configure prompt exactly when \<open>can_edit\<close> is truthy; \<open>on_edit\<close> and
  \<open>on_remove\<close> change the context only when it is, and \<open>on_remove\<close> returns the context
  untouched when it is not. \<open>render_dashboard\<close> hands the value of \<open>can_edit\<close> to
  \<open>allow_add\<close>, \<open>allow_edit\<close> and \<open>allow_remove\<close>.
\<close>

theorem C10_permission_gate:
  "(user c = NoUserAttr \<longrightarrow> can_edit c = VBool True) \<and>
   (user c \<noteq> NoUserAttr \<longrightarrow>
      truthy (can_edit c) = (\<exists>u. user c = User u \<and> u = VStr ''can_edit'')) \<and>
   on_add c =
     (if truthy (can_edit c)
      then ctx_prompt c ''@voxel51/custom_dashboard/configure_plot'' on_configure_plot_cb None
      else c) \<and>
   (\<forall>c'. on_edit c = Inr c' \<and> c' \<noteq> c \<longrightarrow> truthy (can_edit c)) \<and>
   (\<forall>c'. on_remove c = Inr c' \<and> c' \<noteq> c \<longrightarrow> truthy (can_edit c)) \<and>
   (\<not> truthy (can_edit c) \<longrightarrow> on_remove c = Inr c) \<and>
   (\<forall>v. render_dashboard c = Inr v \<longrightarrow>
      allow_add v = can_edit c \<and> allow_edit v = can_edit c \<and> allow_remove v = can_edit c)"
proof (intro conjI allI impI)
  show "on_add c =
     (if truthy (can_edit c)
      then ctx_prompt c ''@voxel51/custom_dashboard/configure_plot'' on_configure_plot_cb None
      else c)"
    by (simp add: on_add_def)
next
  assume "user c = NoUserAttr"
  then show "can_edit c = VBool True" by (simp add: can_edit_def)
next
  assume "user c \<noteq> NoUserAttr"
  then show "truthy (can_edit c) = (\<exists>u. user c = User u \<and> u = VStr ''can_edit'')"
    by (cases "user c") (auto simp: can_edit_def)
next
  fix c' assume "on_edit c = Inr c' \<and> c' \<noteq> c"
  then show "truthy (can_edit c)"
    by (auto simp: on_edit_def Let_def split: sum.splits option.splits if_splits)
next
  fix c' assume "on_remove c = Inr c' \<and> c' \<noteq> c"
  then show "truthy (can_edit c)"
    by (auto simp: on_remove_def on_remove_state_def split: if_splits)
next
  assume "\<not> truthy (can_edit c)"
  then show "on_remove c = Inr c"
    by (simp add: on_remove_def on_remove_state_def)
next
  fix v assume "render_dashboard c = Inr v"
  then show "allow_add v = can_edit c" "allow_edit v = can_edit c" "allow_remove v = can_edit c"
    by (simp_all add: render_dashboard_allow)
qed

subsection \<open>The properties above on the sample inputs\<close>

lemma ex_state_fields:
  "st_ctx ex_state = ex_ctx"
  "st_items ex_state = [(VStr ''plot_7'', ex_line), (VStr ''plot_8'', ex_hist)]"
  "st_data ex_state = []"
  by (simp_all add: ex_state_def)

lemma init_ex_ctx: "DashboardState_init ex_ctx = Inr ex_state"
  by (simp add: DashboardState_init_def get_state_def ex_ctx_def ex_state_def from_dict_to_dict
      key_eq_VStr)

lemma plot_change_ex_ctx:
  "handle_plot_change_state h draw ex_ctx edit =
     Inr (apply_state (fst (plot_change_body h draw
            [(VStr ''plot_type'', VStr ''pie''), (VStr ''field'', VStr ''label'')]
            (VDict []) (VDict []) edit ex_state)))"
proof -
  have r: "dget (params ex_ctx) ''result'' VNone =
      VDict [(VStr ''plot_type'', VStr ''pie''), (VStr ''field'', VStr ''label'')]"
    by (simp add: ex_ctx_def dget_def key_eq_VStr)
  have g: "get_plotly_config_and_layout
             (VDict [(VStr ''plot_type'', VStr ''pie''), (VStr ''field'', VStr ''label'')]) =
           Inr [(VStr ''config'', VDict []), (VStr ''layout'', VDict [])]"
    by (simp add: get_plotly_config_and_layout_def dget_def key_eq_VStr)
  show ?thesis
    unfolding handle_plot_change_state_def r
    by (simp add: g with_DashboardState_result init_ex_ctx dget_def key_eq_VStr)
qed









lemma init_ex_viewer_ctx:
  "DashboardState_init ex_viewer_ctx = Inr (ex_state\<lparr>st_ctx := ex_viewer_ctx\<rparr>)"
  by (simp add: DashboardState_init_def get_state_def ex_viewer_ctx_def ex_ctx_def ex_state_def
      from_dict_to_dict key_eq_VStr)

lemma can_edit_ex:
  "can_edit ex_ctx = VBool True" "can_edit ex_viewer_ctx = VBool False"
  by (simp_all add: can_edit_def ex_ctx_def ex_viewer_ctx_def)

lemma on_edit_ex_ctx:
  "on_edit ex_ctx =
     Inr (ctx_prompt ex_ctx ''@voxel51/custom_dashboard/configure_plot'' on_edit_success_cb
            (Some (VDict [(VStr ''plot_type'', VStr ''line''), (VStr ''name'', VStr ''plot_7'')])))"
proof -
  have i: "dget (params ex_ctx) ''id'' VNone = VStr ''plot_7''"
    by (simp add: ex_ctx_def dget_def key_eq_VStr)
  have g: "get_item ex_state (VStr ''plot_7'') = Inr (Some ex_line)"
    by (simp add: get_item_def ex_state_def key_eq_VStr)
  have p: "to_configure_plot_params ex_line =
      Inr (VDict [(VStr ''plot_type'', VStr ''line''), (VStr ''name'', VStr ''plot_7'')])"
    by (simp add: to_configure_plot_params_def ex_line_def key_eq_VStr)
  show ?thesis
    unfolding on_edit_def i by (simp add: init_ex_ctx g p can_edit_ex)
qed

lemma on_remove_ex_ctx:
  "on_remove ex_ctx =
     Inr (set_state ex_ctx ''items_config'' (VDict [(VStr ''plot_8'', to_dict ex_hist)]))"
proof -
  have i: "dget (params ex_ctx) ''id'' VNone = VStr ''plot_7''"
    by (simp add: ex_ctx_def dget_def key_eq_VStr)
  have r: "remove_item ex_state (VStr ''plot_7'') =
      (ex_state\<lparr>st_items := [(VStr ''plot_8'', ex_hist)]\<rparr>, None)"
    by (simp add: remove_item_def pop_def ex_state_def key_eq_VStr)
  show ?thesis
    unfolding on_remove_def on_remove_state_def i
    by (simp add: can_edit_ex with_DashboardState_result init_ex_ctx r apply_state_def
        items_as_dict_def ex_state_fields Let_def)
qed

lemma render_dashboard_ex_viewer:
  "\<exists>v. render_dashboard ex_viewer_ctx = Inr v"
  by (simp add: render_dashboard_def init_ex_viewer_ctx items_def ex_state_def from_item_def
      label_def ex_line_def ex_hist_def Let_def)

theorem C10_permission_gate_witness:
  "user ex_ctx = NoUserAttr \<and> can_edit ex_ctx = VBool True \<and>
   user ex_viewer_ctx \<noteq> NoUserAttr \<and> \<not> truthy (can_edit ex_viewer_ctx) \<and>
   on_add ex_ctx =
     ctx_prompt ex_ctx ''@voxel51/custom_dashboard/configure_plot'' on_configure_plot_cb None \<and>
   on_add ex_viewer_ctx = ex_viewer_ctx \<and>
   (\<exists>c'. on_edit ex_ctx = Inr c' \<and> c' \<noteq> ex_ctx) \<and>
   (\<exists>c'. on_remove ex_ctx = Inr c' \<and> c' \<noteq> ex_ctx) \<and>
   truthy (can_edit ex_ctx) \<and>
   on_remove ex_viewer_ctx = Inr ex_viewer_ctx \<and>
   (\<exists>v. render_dashboard ex_viewer_ctx = Inr v \<and>
        allow_add v = VBool False \<and> allow_edit v = VBool False \<and> allow_remove v = VBool False)"
proof -
  have u: "user ex_ctx = NoUserAttr" "user ex_viewer_ctx \<noteq> NoUserAttr"
    by (simp_all add: ex_ctx_def ex_viewer_ctx_def)
  have "\<And>u cb ps. ctx_prompt ex_ctx u cb ps \<noteq> ex_ctx"
    by (simp add: ctx_prompt_def ex_ctx_def)
  then have e: "\<exists>c'. on_edit ex_ctx = Inr c' \<and> c' \<noteq> ex_ctx"
    unfolding on_edit_ex_ctx by auto
  have "panel_state (set_state ex_ctx ''items_config'' (VDict [(VStr ''plot_8'', to_dict ex_hist)]))
          ''items_config'' \<noteq> panel_state ex_ctx ''items_config''"
    by (simp add: set_state_def ex_ctx_def)
  then have r: "\<exists>c'. on_remove ex_ctx = Inr c' \<and> c' \<noteq> ex_ctx"
    unfolding on_remove_ex_ctx by auto
  obtain v where v: "render_dashboard ex_viewer_ctx = Inr v"
    using render_dashboard_ex_viewer by blast
  from u e r v can_edit_ex
    C10_permission_gate [where c = ex_ctx]
    C10_permission_gate [where c = ex_viewer_ctx]
  show ?thesis by auto
qed

subsection \<open>Mutations\<close>

lemma load_items_wf: "wf_dict acc \<Longrightarrow> load_items kvs acc = Inr m \<Longrightarrow> wf_dict m"
proof (induction kvs arbitrary: acc)
  case Nil
  then show ?case by simp
next
  case (Cons kv kvs)
  obtain k d where kv: "kv = (k, d)" by (cases kv)
  from Cons.prems kv obtain it where
    "from_dict d = Inr it" and l: "load_items kvs (dict_set acc k it) = Inr m"
    by (auto split: sum.splits)
  from Cons.prems(1) have "wf_dict (dict_set acc k it)" by (rule wf_dict_set)
  then show ?case using l by (rule Cons.IH)
qed

lemma init_fields:
  assumes "DashboardState_init c = Inr st"
  shows "st_ctx st = c" and "st_data st = []" and "wf_dict (st_items st)"
  using assms load_items_wf [of "[]"]
  by (auto simp: DashboardState_init_def Let_def split: if_splits pyval.splits sum.splits)

lemma st_items_remove_item:
  "st_items (fst (remove_item st k)) =
     (if hashable k \<and> dict_get (st_items st) k \<noteq> None then dict_del (st_items st) k
      else st_items st)"
  by (auto simp: remove_item_def pop_def split: option.splits)

lemma st_items_plot_change:
  "st_items (fst (plot_change_body h draw r cfg lay edit st)) =
     (case new_item draw r cfg lay of
        Inl e \<Rightarrow> st_items st
      | Inr it \<Rightarrow> if hashable (name it) then dict_set (st_items st) (name it) it else st_items st)"
  by (simp add: plot_change_body_def st_items_add_plot st_items_edit_plot split: sum.splits)

lemma apply_state_serialized:
  "st_items (apply_state st) = st_items st"
  "panel_state (st_ctx (apply_state st)) ''items_config'' = Some (items_as_dict (apply_state st))"
  by (simp_all add: apply_state_def set_state_def items_as_dict_def)

text \<open>
  C1. When \<open>handle_plot_change\<close> (that is, \<open>on_configure_plot\<close> or \<open>on_edit_success\<close>)
  returns, the panel state under \<open>items_config\<close> is the serialization of the \<open>_items\<close> of
  the state object at the end of its \<open>with\<close> block, and these are the items loaded at
  its start with the new item stored under its name (unchanged when the item could not be
  built or its name is unhashable). When \<open>on_remove\<close> returns, for a user who can edit, the
  panel state under \<open>items_config\<close> is the serialization of the items loaded at its start
  without the one of the given id (unchanged when there is none). For a user who cannot
  edit, \<open>on_remove\<close> mutates nothing and leaves the context as it was.
\<close>

theorem C1_state_serialized_after_mutation:
  "(handle_plot_change h draw c edit = Inr c' \<longrightarrow>
      (\<exists>st st' r p.
         DashboardState_init c = Inr st \<and>
         handle_plot_change_state h draw c edit = Inr st' \<and> c' = st_ctx st' \<and>
         panel_state c' ''items_config'' = Some (items_as_dict st') \<and>
         dget (params c) ''result'' VNone = VDict r \<and>
         get_plotly_config_and_layout (VDict r) = Inr p \<and>
         st_items st' =
           (case new_item draw r (dget p ''config'' (VDict [])) (dget p ''layout'' (VDict [])) of
              Inl e \<Rightarrow> st_items st
            | Inr it \<Rightarrow>
                if hashable (name it) then dict_set (st_items st) (name it) it
                else st_items st))) \<and>
   on_configure_plot h draw c = handle_plot_change h draw c False \<and>
   on_edit_success h draw c = handle_plot_change h draw c True \<and>
   (on_remove c = Inr c' \<and> truthy (can_edit c) \<longrightarrow>
      (\<exists>st st'.
         DashboardState_init c = Inr st \<and>
         on_remove_state c = Inr (Some st') \<and> c' = st_ctx st' \<and>
         panel_state c' ''items_config'' = Some (items_as_dict st') \<and>
         st_items st' =
           (let plot_id = dget (params c) ''id'' VNone in
            if hashable plot_id \<and> dict_get (st_items st) plot_id \<noteq> None
            then dict_del (st_items st) plot_id
            else st_items st))) \<and>
   (\<not> truthy (can_edit c) \<longrightarrow> on_remove c = Inr c)"
proof (intro conjI impI)
  assume "\<not> truthy (can_edit c)"
  then show "on_remove c = Inr c"
    by (simp add: on_remove_def on_remove_state_def)
next
  assume a: "handle_plot_change h draw c edit = Inr c'"
  then obtain st' where s': "handle_plot_change_state h draw c edit = Inr st'" and c': "c' = st_ctx st'"
    by (cases "handle_plot_change_state h draw c edit") (auto simp: handle_plot_change_def)
  from s' obtain r p where r: "dget (params c) ''result'' VNone = VDict r"
    and p: "get_plotly_config_and_layout (VDict r) = Inr p"
    and w: "with_DashboardState c (plot_change_body h draw r
              (dget p ''config'' (VDict [])) (dget p ''layout'' (VDict [])) edit) = Inr st'"
    by (auto simp: handle_plot_change_state_def Let_def split: sum.splits pyval.splits)
  from w obtain st where i: "DashboardState_init c = Inr st"
    and e: "st' = apply_state (fst (plot_change_body h draw r
              (dget p ''config'' (VDict [])) (dget p ''layout'' (VDict [])) edit st))"
    by (auto simp: with_DashboardState_result split: sum.splits)
  from e have "panel_state (st_ctx st') ''items_config'' = Some (items_as_dict st')"
    by (simp add: apply_state_serialized)
  moreover from e have "st_items st' =
           (case new_item draw r (dget p ''config'' (VDict [])) (dget p ''layout'' (VDict [])) of
              Inl e \<Rightarrow> st_items st
            | Inr it \<Rightarrow>
                if hashable (name it) then dict_set (st_items st) (name it) it
                else st_items st)"
    by (simp add: apply_state_serialized st_items_plot_change)
  ultimately show "\<exists>st st' r p.
         DashboardState_init c = Inr st \<and>
         handle_plot_change_state h draw c edit = Inr st' \<and> c' = st_ctx st' \<and>
         panel_state c' ''items_config'' = Some (items_as_dict st') \<and>
         dget (params c) ''result'' VNone = VDict r \<and>
         get_plotly_config_and_layout (VDict r) = Inr p \<and>
         st_items st' =
           (case new_item draw r (dget p ''config'' (VDict [])) (dget p ''layout'' (VDict [])) of
              Inl e \<Rightarrow> st_items st
            | Inr it \<Rightarrow>
                if hashable (name it) then dict_set (st_items st) (name it) it
                else st_items st)"
    using i s' c' r p by blast
next
  show "on_configure_plot h draw c = handle_plot_change h draw c False"
    by (simp add: on_configure_plot_def)
  show "on_edit_success h draw c = handle_plot_change h draw c True"
    by (simp add: on_edit_success_def)
next
  assume a: "on_remove c = Inr c' \<and> truthy (can_edit c)"
  let ?k = "dget (params c) ''id'' VNone"
  from a obtain st' where s': "on_remove_state c = Inr (Some st')" and c': "c' = st_ctx st'"
    and w: "with_DashboardState c (\<lambda>st. remove_item st ?k) = Inr st'"
    by (cases "with_DashboardState c (\<lambda>st. remove_item st ?k)")
      (auto simp: on_remove_def on_remove_state_def Let_def)
  from w obtain st where i: "DashboardState_init c = Inr st"
    and e: "st' = apply_state (fst (remove_item st ?k))"
    by (auto simp: with_DashboardState_result split: sum.splits)
  from e have "panel_state (st_ctx st') ''items_config'' = Some (items_as_dict st')"
    by (simp add: apply_state_serialized)
  moreover from e have "st_items st' =
           (let plot_id = ?k in
            if hashable plot_id \<and> dict_get (st_items st) plot_id \<noteq> None
            then dict_del (st_items st) plot_id
            else st_items st)"
    by (simp add: apply_state_serialized st_items_remove_item Let_def)
  ultimately show "\<exists>st st'.
         DashboardState_init c = Inr st \<and>
         on_remove_state c = Inr (Some st') \<and> c' = st_ctx st' \<and>
         panel_state c' ''items_config'' = Some (items_as_dict st') \<and>
         st_items st' =
           (let plot_id = dget (params c) ''id'' VNone in
            if hashable plot_id \<and> dict_get (st_items st) plot_id \<noteq> None
            then dict_del (st_items st) plot_id
            else st_items st)"
    using i s' c' by blast
qed


lemma result_ex_ctx:
  "dget (params ex_ctx) ''result'' VNone =
     VDict [(VStr ''plot_type'', VStr ''pie''), (VStr ''field'', VStr ''label'')]"
  "dget (params ex_ctx) ''id'' VNone = VStr ''plot_7''"
  by (simp_all add: ex_ctx_def dget_def key_eq_VStr)

lemma layout_ex_ctx:
  "get_plotly_config_and_layout
     (VDict [(VStr ''plot_type'', VStr ''pie''), (VStr ''field'', VStr ''label'')]) =
   Inr [(VStr ''config'', VDict []), (VStr ''layout'', VDict [])]"
  by (simp add: get_plotly_config_and_layout_def dget_def key_eq_VStr)

lemma new_item_ex:
  "new_item draw [(VStr ''plot_type'', VStr ''pie''), (VStr ''field'', VStr ''label'')]
     (VDict []) (VDict []) = Inr (ex_pie (get_next_item_id draw))"
  by (simp add: new_item_def dget_def key_eq_VStr DashboardPlotItem_init_def ex_pie_def)

theorem C1_state_serialized_after_mutation_witness:
  "(\<exists>c'. handle_plot_change ex_host 3 ex_ctx False = Inr c' \<and>
         panel_state c' ''items_config'' =
           Some (VDict [(VStr ''plot_7'', to_dict ex_line), (VStr ''plot_8'', to_dict ex_hist),
                        (VStr ''plot_3'', to_dict (ex_pie ''plot_3''))])) \<and>
   truthy (can_edit ex_ctx) \<and>
   (\<exists>c'. on_remove ex_ctx = Inr c' \<and>
         panel_state c' ''items_config'' = Some (VDict [(VStr ''plot_8'', to_dict ex_hist)])) \<and>
   \<not> truthy (can_edit ex_viewer_ctx) \<and>
   on_remove ex_viewer_ctx = Inr ex_viewer_ctx"
proof -
  obtain c1 where c1: "handle_plot_change ex_host 3 ex_ctx False = Inr c1"
    by (simp add: handle_plot_change_def plot_change_ex_ctx)
  obtain c2 where c2: "on_remove ex_ctx = Inr c2"
    by (simp add: on_remove_ex_ctx)
  have t: "truthy (can_edit ex_ctx)" by (simp add: can_edit_ex)
  have n: "get_next_item_id 3 = ''plot_3''"
    by (simp add: get_next_item_id_def str_of_nat.simps)
  from c1 C1_state_serialized_after_mutation [of ex_host 3 ex_ctx False c1]
  obtain st st' r p where
    i: "DashboardState_init ex_ctx = Inr st"
    and s: "panel_state c1 ''items_config'' = Some (items_as_dict st')"
    and r: "dget (params ex_ctx) ''result'' VNone = VDict r"
    and p: "get_plotly_config_and_layout (VDict r) = Inr p"
    and m: "st_items st' =
           (case new_item 3 r (dget p ''config'' (VDict [])) (dget p ''layout'' (VDict [])) of
              Inl e \<Rightarrow> st_items st
            | Inr it \<Rightarrow>
                if hashable (name it) then dict_set (st_items st) (name it) it
                else st_items st)"
    by blast
  from i have st: "st = ex_state" by (simp add: init_ex_ctx)
  from r have r': "r = [(VStr ''plot_type'', VStr ''pie''), (VStr ''field'', VStr ''label'')]"
    by (simp add: result_ex_ctx)
  from p have p': "p = [(VStr ''config'', VDict []), (VStr ''layout'', VDict [])]"
    unfolding r' by (simp add: layout_ex_ctx)
  have "dget p ''config'' (VDict []) = VDict []" "dget p ''layout'' (VDict []) = VDict []"
    unfolding p' by (simp_all add: dget_def key_eq_VStr)
  with m have "st_items st' = dict_set (st_items ex_state) (VStr ''plot_3'') (ex_pie ''plot_3'')"
    unfolding r' st by (simp add: new_item_ex n) (simp add: ex_pie_def)
  with s have a: "panel_state c1 ''items_config'' =
           Some (VDict [(VStr ''plot_7'', to_dict ex_line), (VStr ''plot_8'', to_dict ex_hist),
                        (VStr ''plot_3'', to_dict (ex_pie ''plot_3''))])"
    by (simp add: items_as_dict_def ex_state_fields key_eq_VStr)
  from c2 t C1_state_serialized_after_mutation [of ex_host 3 ex_ctx False c2]
  obtain st2 st2' where
    i2: "DashboardState_init ex_ctx = Inr st2"
    and s2: "panel_state c2 ''items_config'' = Some (items_as_dict st2')"
    and m2: "st_items st2' =
           (let plot_id = dget (params ex_ctx) ''id'' VNone in
            if hashable plot_id \<and> dict_get (st_items st2) plot_id \<noteq> None
            then dict_del (st_items st2) plot_id
            else st_items st2)"
    by blast
  from i2 have st2: "st2 = ex_state" by (simp add: init_ex_ctx)
  from m2 have "st_items st2' = [(VStr ''plot_8'', ex_hist)]"
    unfolding st2 result_ex_ctx by (simp add: ex_state_fields key_eq_VStr)
  with s2 have b: "panel_state c2 ''items_config'' = Some (VDict [(VStr ''plot_8'', to_dict ex_hist)])"
    by (simp add: items_as_dict_def)
  have v: "\<not> truthy (can_edit ex_viewer_ctx)" by (simp add: can_edit_ex)
  with C1_state_serialized_after_mutation [of ex_host 3 ex_viewer_ctx False ex_viewer_ctx]
  have r: "on_remove ex_viewer_ctx = Inr ex_viewer_ctx" by blast
  from c1 c2 t a b v r show ?thesis by blast
qed

subsection \<open>Exceptions inside the context manager\<close>

lemma init_record:
  "DashboardState_init c = Inr st \<Longrightarrow> st = \<lparr>st_ctx = c, st_items = st_items st, st_data = []\<rparr>"
  by (cases st) (auto dest: init_fields)

lemma remove_item_absent:
  "hashable pid \<longrightarrow> dict_get (st_items st) pid = None \<Longrightarrow>
   remove_item st pid =
     (st, Some (if st_items st = [] \<or> hashable pid then KeyError else TypeError))"
  by (auto simp: remove_item_def pop_def)

lemma init_of_serialized:
  assumes "wf_dict (st_items s0)" and "get_state c ''items_config'' = items_as_dict s0"
    and "DashboardState_init c = Inr st"
  shows "st_items st = st_items s0"
proof -
  from assms(1) have "load_items (map (\<lambda>(k, v). (k, to_dict v)) (st_items s0)) [] = Inr (st_items s0)"
    using load_items_serialized [of "[]" "st_items s0"] by simp
  with assms(2,3) show ?thesis
    by (auto simp: DashboardState_init_def items_as_dict_def Let_def split: if_splits)
qed

lemma set_state_same: "panel_state c k = Some v \<Longrightarrow> set_state c k v = c"
  by (simp add: set_state_def fun_upd_idem)

text \<open>
  C9, as the code has it. \<open>__exit__\<close> returns \<open>True\<close>, so once the constructor has
  returned, a \<open>with\<close> block never lets an exception of its body out: it ends with the
  state the body left, written out by \<open>apply_state\<close>. In particular \<open>on_remove\<close>, called by
  a user who can edit with an id that is not a key of the collection (\<open>KeyError\<close>; an
  unhashable id gives \<open>TypeError\<close> unless the collection is empty), returns normally and
  leaves the widget collection as it was: the value under \<open>items_config\<close> is rewritten as
  the serialization of the collection that was loaded, which loads back as that same
  collection; every other key and the render data are untouched. The rewritten value is
  the value that was there whenever that was a serialization written by the panel; then
  the context is left exactly as it was. (A value that was not, an unset one included,
  is replaced by the serialization: see the fresh panel below.)
\<close>

theorem C9_exceptions_suppressed:
  "(DashboardState_init c = Inr st \<longrightarrow>
      with_DashboardState c body = Inr (apply_state (fst (body st))) \<and>
      snd (DashboardState_exit (fst (body st)) (snd (body st)))) \<and>
   (DashboardState_init c = Inr st \<and> truthy (can_edit c) \<and> pid = dget (params c) ''id'' VNone \<and>
    (hashable pid \<longrightarrow> dict_get (st_items st) pid = None) \<longrightarrow>
      remove_item st pid =
        (st, Some (if st_items st = [] \<or> hashable pid then KeyError else TypeError)) \<and>
      (\<exists>c'. on_remove c = Inr c' \<and>
            DashboardState_init c' = Inr (st\<lparr>st_ctx := c'\<rparr>) \<and>
            panel_state c' ''items_config'' = Some (items_as_dict st) \<and>
            (\<forall>k. k \<noteq> ''items_config'' \<longrightarrow> panel_state c' k = panel_state c k) \<and>
            panel_data c' = panel_data c \<and>
            ((\<exists>s0. wf_dict (st_items s0) \<and> get_state c ''items_config'' = items_as_dict s0) \<longrightarrow>
               c' = c)))"
proof (intro conjI impI)
  assume "DashboardState_init c = Inr st"
  then show "with_DashboardState c body = Inr (apply_state (fst (body st)))"
    by (simp add: with_DashboardState_result)
  show "snd (DashboardState_exit (fst (body st)) (snd (body st)))"
    by (simp add: DashboardState_exit_def)
next
  assume a: "DashboardState_init c = Inr st \<and> truthy (can_edit c) \<and>
    pid = dget (params c) ''id'' VNone \<and> (hashable pid \<longrightarrow> dict_get (st_items st) pid = None)"
  then have i: "DashboardState_init c = Inr st" and t: "truthy (can_edit c)"
    and pid: "dget (params c) ''id'' VNone = pid"
    and ab: "hashable pid \<longrightarrow> dict_get (st_items st) pid = None"
    by blast+
  from ab show r: "remove_item st pid =
      (st, Some (if st_items st = [] \<or> hashable pid then KeyError else TypeError))"
    by (rule remove_item_absent)
  let ?c' = "st_ctx (apply_state st)"
  from i have f: "st_ctx st = c" "st_data st = []" "wf_dict (st_items st)"
    by (rule init_fields)+
  have o: "on_remove c = Inr ?c'"
    by (simp add: on_remove_def on_remove_state_def t pid with_DashboardState_result i r Let_def)
  from f(3) have "DashboardState_init ?c' =
      Inr \<lparr>st_ctx = ?c', st_items = st_items st, st_data = []\<rparr>"
    by (rule init_after_apply_state)
  then have l: "DashboardState_init ?c' = Inr (st\<lparr>st_ctx := ?c'\<rparr>)"
    using f(2) by (cases st) simp
  have s: "panel_state ?c' ''items_config'' = Some (items_as_dict st)"
    by (simp add: apply_state_def set_state_def)
  have k: "\<forall>k. k \<noteq> ''items_config'' \<longrightarrow> panel_state ?c' k = panel_state c k"
    by (simp add: apply_state_def set_state_def f(1))
  have d: "panel_data ?c' = panel_data c"
    by (simp add: apply_state_def set_state_def f(1))
  have w: "(\<exists>s0. wf_dict (st_items s0) \<and> get_state c ''items_config'' = items_as_dict s0) \<longrightarrow> ?c' = c"
  proof
    assume "\<exists>s0. wf_dict (st_items s0) \<and> get_state c ''items_config'' = items_as_dict s0"
    then obtain s0 where s0: "wf_dict (st_items s0)" "get_state c ''items_config'' = items_as_dict s0"
      by blast
    from s0 i have "st_items st = st_items s0" by (rule init_of_serialized)
    then have "items_as_dict st = items_as_dict s0" by (simp add: items_as_dict_def)
    with s0(2) have "panel_state c ''items_config'' = Some (items_as_dict st)"
      by (auto simp: get_state_def items_as_dict_def split: option.splits)
    then show "?c' = c"
      by (simp add: apply_state_def f(1) set_state_same)
  qed
  from o l s k d w show "\<exists>c'. on_remove c = Inr c' \<and>
            DashboardState_init c' = Inr (st\<lparr>st_ctx := c'\<rparr>) \<and>
            panel_state c' ''items_config'' = Some (items_as_dict st) \<and>
            (\<forall>k. k \<noteq> ''items_config'' \<longrightarrow> panel_state c' k = panel_state c k) \<and>
            panel_data c' = panel_data c \<and>
            ((\<exists>s0. wf_dict (st_items s0) \<and> get_state c ''items_config'' = items_as_dict s0) \<longrightarrow>
               c' = c)"
    by blast
qed

lemma init_ex_absent_ctx:
  "DashboardState_init ex_absent_ctx = Inr (ex_state\<lparr>st_ctx := ex_absent_ctx\<rparr>)"
  by (simp add: DashboardState_init_def get_state_def ex_absent_ctx_def ex_ctx_def ex_state_def
      from_dict_to_dict key_eq_VStr)

theorem C9_exceptions_suppressed_witness:
  "DashboardState_init ex_absent_ctx = Inr (ex_state\<lparr>st_ctx := ex_absent_ctx\<rparr>) \<and>
   with_DashboardState ex_absent_ctx (\<lambda>st. (clear_items st, Some SystemExit)) =
     Inr (apply_state (clear_items (ex_state\<lparr>st_ctx := ex_absent_ctx\<rparr>))) \<and>
   truthy (can_edit ex_absent_ctx) \<and>
   dget (params ex_absent_ctx) ''id'' VNone = VStr ''plot_9'' \<and>
   dict_get (st_items (ex_state\<lparr>st_ctx := ex_absent_ctx\<rparr>)) (VStr ''plot_9'') = None \<and>
   remove_item (ex_state\<lparr>st_ctx := ex_absent_ctx\<rparr>) (VStr ''plot_9'') =
     (ex_state\<lparr>st_ctx := ex_absent_ctx\<rparr>, Some KeyError) \<and>
   wf_dict (st_items ex_state) \<and>
   get_state ex_absent_ctx ''items_config'' = items_as_dict ex_state \<and>
   on_remove ex_absent_ctx = Inr ex_absent_ctx"
proof -
  let ?st = "ex_state\<lparr>st_ctx := ex_absent_ctx\<rparr>"
  have t: "truthy (can_edit ex_absent_ctx)"
    by (simp add: can_edit_def ex_absent_ctx_def ex_ctx_def)
  have p: "dget (params ex_absent_ctx) ''id'' VNone = VStr ''plot_9''"
    by (simp add: ex_absent_ctx_def dget_def key_eq_VStr)
  have n: "dict_get (st_items ?st) (VStr ''plot_9'') = None"
    by (simp add: ex_state_fields key_eq_VStr)
  have w: "wf_dict (st_items ex_state)"
    by (simp add: ex_state_fields key_eq_VStr)
  have g: "get_state ex_absent_ctx ''items_config'' = items_as_dict ex_state"
    by (simp add: get_state_def ex_absent_ctx_def ex_ctx_def items_as_dict_def ex_state_fields)
  from w g have e: "\<exists>s0. wf_dict (st_items s0) \<and> get_state ex_absent_ctx ''items_config'' = items_as_dict s0"
    by blast
  from init_ex_absent_ctx t p n e
    C9_exceptions_suppressed [where c = ex_absent_ctx and st = ?st and pid = "VStr ''plot_9''"
      and body = "\<lambda>st. (clear_items st, Some SystemExit)"]
  have "with_DashboardState ex_absent_ctx (\<lambda>st. (clear_items st, Some SystemExit)) =
     Inr (apply_state (clear_items ?st))"
    and "remove_item ?st (VStr ''plot_9'') = (?st, Some KeyError)"
    and "on_remove ex_absent_ctx = Inr ex_absent_ctx"
    by auto
  with init_ex_absent_ctx t p n w g show ?thesis by blast
qed

lemma init_ex_fresh_ctx:
  "DashboardState_init ex_fresh_ctx = Inr \<lparr>st_ctx = ex_fresh_ctx, st_items = [], st_data = []\<rparr>"
  by (simp add: DashboardState_init_def get_state_def ex_fresh_ctx_def)

text \<open>
  On a panel that has never stored anything, \<open>on_remove\<close> with an absent id does not leave
  \<open>items_config\<close> exactly as it was: it was unset (\<open>get_state\<close> gives \<open>None\<close>) and it is the
  empty dict afterwards.
\<close>

theorem C9_fresh_panel_counterexample:
  "truthy (can_edit ex_fresh_ctx) \<and>
   dget (params ex_fresh_ctx) ''id'' VNone = VStr ''plot_9'' \<and>
   DashboardState_init ex_fresh_ctx = Inr \<lparr>st_ctx = ex_fresh_ctx, st_items = [], st_data = []\<rparr> \<and>
   panel_state ex_fresh_ctx ''items_config'' = None \<and>
   get_state ex_fresh_ctx ''items_config'' = VNone \<and>
   on_remove ex_fresh_ctx = Inr (set_state ex_fresh_ctx ''items_config'' (VDict [])) \<and>
   panel_state (set_state ex_fresh_ctx ''items_config'' (VDict [])) ''items_config'' =
     Some (VDict []) \<and>
   get_state (set_state ex_fresh_ctx ''items_config'' (VDict [])) ''items_config'' = VDict [] \<and>
   set_state ex_fresh_ctx ''items_config'' (VDict []) \<noteq> ex_fresh_ctx"
proof -
  have t: "truthy (can_edit ex_fresh_ctx)"
    by (simp add: can_edit_def ex_fresh_ctx_def)
  have p: "dget (params ex_fresh_ctx) ''id'' VNone = VStr ''plot_9''"
    by (simp add: ex_fresh_ctx_def dget_def key_eq_VStr)
  have n: "panel_state ex_fresh_ctx ''items_config'' = None"
    "get_state ex_fresh_ctx ''items_config'' = VNone"
    by (simp_all add: get_state_def ex_fresh_ctx_def)
  have r: "remove_item \<lparr>st_ctx = ex_fresh_ctx, st_items = [], st_data = []\<rparr> (VStr ''plot_9'') =
      (\<lparr>st_ctx = ex_fresh_ctx, st_items = [], st_data = []\<rparr>, Some KeyError)"
    by (simp add: remove_item_def pop_def)
  have o: "on_remove ex_fresh_ctx = Inr (set_state ex_fresh_ctx ''items_config'' (VDict []))"
    by (simp add: on_remove_def on_remove_state_def t p with_DashboardState_result
        init_ex_fresh_ctx r apply_state_def items_as_dict_def Let_def)
  have s: "panel_state (set_state ex_fresh_ctx ''items_config'' (VDict [])) ''items_config'' =
     Some (VDict [])"
    "get_state (set_state ex_fresh_ctx ''items_config'' (VDict [])) ''items_config'' = VDict []"
    by (simp_all add: set_state_def get_state_def)
  from n(1) s(1) have d: "set_state ex_fresh_ctx ''items_config'' (VDict []) \<noteq> ex_fresh_ctx"
    by auto
  from t p init_ex_fresh_ctx n o s d show ?thesis by blast
qed

subsection \<open>Refreshing on a change of view\<close>

lemma key_eq_hashable: "key_eq a b \<Longrightarrow> hashable a = hashable b"
  by (cases a; cases b) (auto simp: key_eq_def)

lemma key_eq_VStr_left: "key_eq (VStr s) k = (k = VStr s)"
  by (cases k) (auto simp: key_eq_def)

lemma fstr_VStr: "fstr h (VStr s) = s"
  by (simp add: fstr_def)

lemma load_plot_data_for_item_st_data:
  "load_plot_data_for_item h (st\<lparr>st_data := dm\<rparr>) it =
     (case load_plot_data_for_item h st it of (s, r) \<Rightarrow> (s\<lparr>st_data := dm\<rparr>, r))"
  by (simp add: load_plot_data_for_item_def split: prod.splits)

lemma load_plot_data_st_data:
  "load_plot_data h (st\<lparr>st_data := dm\<rparr>) k =
     (case load_plot_data h st k of (s, r) \<Rightarrow> (s\<lparr>st_data := dm\<rparr>, r))"
  by (simp add: load_plot_data_def get_item_def load_plot_data_for_item_st_data
      split: option.splits)

lemma snd_load_plot_data_st_data [simp]:
  "snd (load_plot_data h (st\<lparr>st_data := dm\<rparr>) k) = snd (load_plot_data h st k)"
  by (simp add: load_plot_data_st_data split: prod.splits)

lemma load_plot_data_key_eq:
  "key_eq a b \<Longrightarrow> load_plot_data h st a = load_plot_data h st b"
  by (simp add: load_plot_data_def get_item_def key_eq_hashable [of a b] dict_get_key_eq [of a b])

lemma leaves_context_load:
  "leaves_context h (st_ctx st) it \<Longrightarrow> fst (load_plot_data_for_item h st it) = st"
  by (cases "exec h (code it) (st_ctx st)")
    (auto simp: leaves_context_def load_plot_data_for_item_def load_data_from_code_def
      split: sum.splits)

lemma dict_set_keys: "fst ` set (dict_set d k v) \<subseteq> insert k (fst ` set d)"
proof (induction d)
  case Nil
  then show ?case by simp
next
  case (Cons kv d)
  obtain a b where "kv = (a, b)" by (cases kv)
  with Cons show ?case by (cases "key_eq a k") auto
qed

lemma dict_get_present: "(k, v) \<in> set m \<Longrightarrow> key_eq k k' \<Longrightarrow> dict_get m k' \<noteq> None"
  by (induction m) auto

text \<open>
  The loop, started in a state \<open>st\<close> with some payloads \<open>dm\<close>, when loading a flagged
  widget leaves the state as it is.
\<close>

lemma change_view_loop_frame:
  assumes "\<forall>it \<in> set xs. truthy (update_on_change it) \<longrightarrow>
             (\<forall>dm. fst (load_plot_data h (st\<lparr>st_data := dm\<rparr>) (name it)) = st\<lparr>st_data := dm\<rparr>)"
  shows "\<exists>dm'. fst (change_view_loop h (st\<lparr>st_data := dm\<rparr>) xs) = st\<lparr>st_data := dm'\<rparr> \<and>
           (wf_dict dm \<longrightarrow> wf_dict dm') \<and>
           fst ` set dm' \<subseteq> fst ` set dm \<union> name ` {it \<in> set xs. truthy (update_on_change it)}"
  using assms
proof (induction xs arbitrary: dm)
  case Nil
  then show ?case by auto
next
  case (Cons it its)
  from Cons.prems have Q: "\<forall>w \<in> set its. truthy (update_on_change w) \<longrightarrow>
             (\<forall>dm. fst (load_plot_data h (st\<lparr>st_data := dm\<rparr>) (name w)) = st\<lparr>st_data := dm\<rparr>)"
    by simp
  show ?case
  proof (cases "truthy (update_on_change it)")
    case False
    from Cons.IH [OF Q, of dm] obtain dm' where
      a: "fst (change_view_loop h (st\<lparr>st_data := dm\<rparr>) its) = st\<lparr>st_data := dm'\<rparr>"
      and b: "wf_dict dm \<longrightarrow> wf_dict dm'"
      and c: "fst ` set dm' \<subseteq> fst ` set dm \<union> name ` {w \<in> set its. truthy (update_on_change w)}"
      by blast
    from False have "{w \<in> set (it # its). truthy (update_on_change w)} =
        {w \<in> set its. truthy (update_on_change w)}" by auto
    with c have c': "fst ` set dm' \<subseteq> fst ` set dm \<union>
        name ` {w \<in> set (it # its). truthy (update_on_change w)}" by simp
    from False a have "fst (change_view_loop h (st\<lparr>st_data := dm\<rparr>) (it # its)) = st\<lparr>st_data := dm'\<rparr>"
      by simp
    with b c' show ?thesis by blast
  next
    case True
    with Cons.prems have f: "fst (load_plot_data h (st\<lparr>st_data := dm\<rparr>) (name it)) = st\<lparr>st_data := dm\<rparr>"
      by simp
    then obtain r where l: "load_plot_data h (st\<lparr>st_data := dm\<rparr>) (name it) = (st\<lparr>st_data := dm\<rparr>, r)"
      by (cases "load_plot_data h (st\<lparr>st_data := dm\<rparr>) (name it)") simp
    show ?thesis
    proof (cases r)
      case (Inl e)
      with True l show ?thesis by auto
    next
      case (Inr d)
      show ?thesis
      proof (cases "hashable (name it)")
        case False
        with True l Inr show ?thesis by (auto simp: setitem_def)
      next
        case h: True
        from Cons.IH [OF Q, of "dict_set dm (name it) d"] obtain dm' where
          a: "fst (change_view_loop h (st\<lparr>st_data := dict_set dm (name it) d\<rparr>) its) = st\<lparr>st_data := dm'\<rparr>"
          and b: "wf_dict (dict_set dm (name it) d) \<longrightarrow> wf_dict dm'"
          and c: "fst ` set dm' \<subseteq> fst ` set (dict_set dm (name it) d) \<union>
                   name ` {w \<in> set its. truthy (update_on_change w)}"
          by blast
        from True have "name ` {w \<in> set (it # its). truthy (update_on_change w)} =
            insert (name it) (name ` {w \<in> set its. truthy (update_on_change w)})"
          by auto
        with c dict_set_keys [of dm "name it" d]
        have c': "fst ` set dm' \<subseteq> fst ` set dm \<union>
                   name ` {w \<in> set (it # its). truthy (update_on_change w)}"
          by blast
        from b have b': "wf_dict dm \<longrightarrow> wf_dict dm'" by (simp add: wf_dict_set)
        from True l Inr h a
        have "fst (change_view_loop h (st\<lparr>st_data := dm\<rparr>) (it # its)) = st\<lparr>st_data := dm'\<rparr>"
          by (simp add: setitem_def)
        with b' c' show ?thesis by blast
      qed
    qed
  qed
qed

lemma change_view_loop_data:
  assumes "\<forall>it \<in> set xs. truthy (update_on_change it) \<longrightarrow>
             (\<forall>dm. fst (load_plot_data h (st\<lparr>st_data := dm\<rparr>) (name it)) = st\<lparr>st_data := dm\<rparr>)"
    and "change_view_loop h (st\<lparr>st_data := dm\<rparr>) xs = (s', None)"
  shows "(\<forall>it \<in> set xs. truthy (update_on_change it) \<longrightarrow>
            (\<exists>d. snd (load_plot_data h st (name it)) = Inr d \<and>
                 dict_get (st_data s') (name it) = Some d)) \<and>
         (\<forall>k. (\<forall>it \<in> set xs. truthy (update_on_change it) \<longrightarrow> \<not> key_eq (name it) k) \<longrightarrow>
              dict_get (st_data s') k = dict_get dm k)"
  using assms
proof (induction xs arbitrary: dm)
  case Nil
  then show ?case by auto
next
  case (Cons it its)
  from Cons.prems(1) have Q: "\<forall>w \<in> set its. truthy (update_on_change w) \<longrightarrow>
             (\<forall>dm. fst (load_plot_data h (st\<lparr>st_data := dm\<rparr>) (name w)) = st\<lparr>st_data := dm\<rparr>)"
    by simp
  show ?case
  proof (cases "truthy (update_on_change it)")
    case False
    with Cons.prems(2) have "change_view_loop h (st\<lparr>st_data := dm\<rparr>) its = (s', None)" by simp
    from Cons.IH [OF Q this] False show ?thesis by auto
  next
    case True
    with Cons.prems(1) have "fst (load_plot_data h (st\<lparr>st_data := dm\<rparr>) (name it)) = st\<lparr>st_data := dm\<rparr>"
      by simp
    moreover have "snd (load_plot_data h (st\<lparr>st_data := dm\<rparr>) (name it)) =
        snd (load_plot_data h st (name it))" by simp
    ultimately have l: "load_plot_data h (st\<lparr>st_data := dm\<rparr>) (name it) =
        (st\<lparr>st_data := dm\<rparr>, snd (load_plot_data h st (name it)))"
      by (cases "load_plot_data h (st\<lparr>st_data := dm\<rparr>) (name it)") simp
    with True Cons.prems(2) obtain d where
      d: "snd (load_plot_data h st (name it)) = Inr d"
      and l': "change_view_loop h (st\<lparr>st_data := dict_set dm (name it) d\<rparr>) its = (s', None)"
      by (cases "snd (load_plot_data h st (name it))")
        (auto simp: setitem_def split: if_splits)
    note IH = Cons.IH [OF Q l']
    from IH have A: "\<forall>w \<in> set its. truthy (update_on_change w) \<longrightarrow>
        (\<exists>e. snd (load_plot_data h st (name w)) = Inr e \<and> dict_get (st_data s') (name w) = Some e)"
      by simp
    from IH have B: "\<forall>k. (\<forall>w \<in> set its. truthy (update_on_change w) \<longrightarrow> \<not> key_eq (name w) k) \<longrightarrow>
          dict_get (st_data s') k = dict_get (dict_set dm (name it) d) k"
      by simp
    have H: "dict_get (st_data s') (name it) = Some d"
    proof (cases "\<forall>w \<in> set its. truthy (update_on_change w) \<longrightarrow> \<not> key_eq (name w) (name it)")
      case True
      with B show ?thesis by (simp add: dict_get_set key_eq_refl)
    next
      case False
      then obtain w where w: "w \<in> set its" "truthy (update_on_change w)" "key_eq (name w) (name it)"
        by blast
      with A obtain e where e: "snd (load_plot_data h st (name w)) = Inr e"
        "dict_get (st_data s') (name w) = Some e" by blast
      from w(3) e(1) d have "e = d" by (simp add: load_plot_data_key_eq [of "name w" "name it"])
      with e(2) w(3) show ?thesis by (simp add: dict_get_key_eq [of "name w" "name it"])
    qed
    have C: "\<forall>k. (\<forall>w \<in> set (it # its). truthy (update_on_change w) \<longrightarrow> \<not> key_eq (name w) k) \<longrightarrow>
          dict_get (st_data s') k = dict_get dm k"
      using B True by (simp add: dict_get_set)
    from A H d True C show ?thesis by simp
  qed
qed

lemma change_view_loop_returns:
  assumes "\<forall>it \<in> set xs. truthy (update_on_change it) \<longrightarrow>
             (\<forall>dm. fst (load_plot_data h (st\<lparr>st_data := dm\<rparr>) (name it)) = st\<lparr>st_data := dm\<rparr>)"
    and "\<forall>it \<in> set xs. truthy (update_on_change it) \<longrightarrow>
      hashable (name it) \<and> (\<exists>d. snd (load_plot_data h st (name it)) = Inr d)"
  shows "snd (change_view_loop h (st\<lparr>st_data := dm\<rparr>) xs) = None"
  using assms
proof (induction xs arbitrary: dm)
  case Nil
  then show ?case by simp
next
  case (Cons it its)
  from Cons.prems have Q: "\<forall>w \<in> set its. truthy (update_on_change w) \<longrightarrow>
             (\<forall>dm. fst (load_plot_data h (st\<lparr>st_data := dm\<rparr>) (name w)) = st\<lparr>st_data := dm\<rparr>)"
    and R: "\<forall>w \<in> set its. truthy (update_on_change w) \<longrightarrow>
      hashable (name w) \<and> (\<exists>d. snd (load_plot_data h st (name w)) = Inr d)"
    by simp_all
  show ?case
  proof (cases "truthy (update_on_change it)")
    case False
    with Cons.IH [OF Q R, of dm] show ?thesis by simp
  next
    case True
    with Cons.prems obtain d where d: "snd (load_plot_data h st (name it)) = Inr d"
      and hs: "hashable (name it)"
      and f: "fst (load_plot_data h (st\<lparr>st_data := dm\<rparr>) (name it)) = st\<lparr>st_data := dm\<rparr>"
      by auto
    have "snd (load_plot_data h (st\<lparr>st_data := dm\<rparr>) (name it)) =
        snd (load_plot_data h st (name it))" by simp
    with f d have l: "load_plot_data h (st\<lparr>st_data := dm\<rparr>) (name it) = (st\<lparr>st_data := dm\<rparr>, Inr d)"
      by (cases "load_plot_data h (st\<lparr>st_data := dm\<rparr>) (name it)") simp
    from Cons.IH [OF Q R, of "dict_set dm (name it) d"] True l hs
    show ?thesis by (simp add: setitem_def)
  qed
qed

lemma panel_data_string_keys:
  assumes "wf_dict dm" and "\<forall>k \<in> fst ` set dm. \<exists>s. k = VStr s"
  shows "panel_data (batch_set_data c (map (\<lambda>(k, v). (pre @ fstr h k, v)) dm)) (pre @ s) =
         (case dict_get dm (VStr s) of Some v \<Rightarrow> Some v | None \<Rightarrow> panel_data c (pre @ s))"
  using assms
proof (induction dm arbitrary: c)
  case Nil
  then show ?case by simp
next
  case (Cons kv dm)
  obtain k v where kv: "kv = (k, v)" by (cases kv)
  with Cons.prems obtain s0 where k: "k = VStr s0" by auto
  from Cons.prems kv have w: "wf_dict dm" "dict_get dm k = None"
    and ks: "\<forall>k \<in> fst ` set dm. \<exists>s. k = VStr s" by auto
  note IH = Cons.IH [OF w(1) ks]
  show ?case
    using w(2) unfolding kv k
    by (auto simp add: IH fstr_VStr key_eq_VStr split: option.splits)
qed

lemma named_by_key_lookup:
  "wf_dict m \<Longrightarrow> named_by_key m \<Longrightarrow> (k, it) \<in> set m \<Longrightarrow>
     dict_get m (name it) = Some it \<and> (\<exists>s. name it = VStr s)"
proof (induction m)
  case Nil
  then show ?case by simp
next
  case (Cons kv m)
  obtain k0 it0 where kv: "kv = (k0, it0)" by (cases kv)
  from Cons.prems kv obtain s0 where k0: "k0 = VStr s0" "name it0 = VStr s0"
    by (auto split: pyval.splits)
  show ?case
  proof (cases "(k, it) = (k0, it0)")
    case True
    with kv k0 show ?thesis by (simp add: key_eq_refl)
  next
    case False
    with Cons.prems kv have m: "(k, it) \<in> set m" by auto
    from Cons.prems kv have "wf_dict m" "named_by_key m" by auto
    from Cons.IH [OF this m] have r: "dict_get m (name it) = Some it" "\<exists>s. name it = VStr s"
      by auto
    from Cons.prems kv have "dict_get m k0 = None" by simp
    with r(1) have "\<not> key_eq k0 (name it)"
      using dict_get_key_eq [of k0 "name it" m] by auto
    with r kv show ?thesis by simp
  qed
qed


lemma named_by_key_set:
  "named_by_key m \<Longrightarrow> name it = VStr s \<Longrightarrow> named_by_key (dict_set m (VStr s) it)"
  by (induction m) (auto simp: key_eq_VStr split: pyval.splits)

lemma named_by_key_del: "named_by_key m \<Longrightarrow> named_by_key (dict_del m k)"
  by (induction m) auto

lemma named_by_key_add_plot:
  "named_by_key (st_items st) \<Longrightarrow> name it = VStr s \<Longrightarrow>
     named_by_key (st_items (fst (add_plot h st it)))"
  by (simp add: st_items_add_plot named_by_key_set)

lemma named_by_key_remove_item:
  "named_by_key (st_items st) \<Longrightarrow> named_by_key (st_items (fst (remove_item st k)))"
  by (simp add: st_items_remove_item named_by_key_del)

lemma items_named:
  assumes "wf_dict (st_items st)" and "named_by_key (st_items st)" and "it \<in> set (items st)"
  shows "dict_get (st_items st) (name it) = Some it" and "\<exists>s. name it = VStr s"
proof -
  from assms(3) obtain k where "(k, it) \<in> set (st_items st)"
    by (auto simp: items_def)
  with assms(1,2) show "dict_get (st_items st) (name it) = Some it" and "\<exists>s. name it = VStr s"
    by (auto dest: named_by_key_lookup)
qed

lemma load_plot_data_named:
  assumes "wf_dict (st_items st)" and "named_by_key (st_items st)" and "it \<in> set (items st)"
  shows "load_plot_data h st (name it) = load_plot_data_for_item h st it"
  using items_named [OF assms]
  by (auto simp: load_plot_data_def get_item_def)

lemma flagged_loads_leave_state:
  assumes w: "wf_dict (st_items st)" and nk: "named_by_key (st_items st)"
    and q: "\<forall>it \<in> set (items st). truthy (update_on_change it) \<longrightarrow> leaves_context h (st_ctx st) it"
  shows "\<forall>it \<in> set (items st). truthy (update_on_change it) \<longrightarrow>
           (\<forall>dm. fst (load_plot_data h (st\<lparr>st_data := dm\<rparr>) (name it)) = st\<lparr>st_data := dm\<rparr>)"
proof (intro ballI impI allI)
  fix it dm assume it: "it \<in> set (items st)" "truthy (update_on_change it)"
  with q have "leaves_context h (st_ctx st) it" by blast
  then have "fst (load_plot_data_for_item h st it) = st" by (rule leaves_context_load)
  with load_plot_data_named [OF w nk it(1), of h]
  have "fst (load_plot_data h st (name it)) = st" by simp
  then show "fst (load_plot_data h (st\<lparr>st_data := dm\<rparr>) (name it)) = st\<lparr>st_data := dm\<rparr>"
    by (cases "load_plot_data h st (name it)") (simp add: load_plot_data_st_data)
qed

lemma on_change_view_effect:
  assumes i: "DashboardState_init c = Inr st"
    and nk: "named_by_key (st_items st)"
    and q: "\<forall>it \<in> set (items st). truthy (update_on_change it) \<longrightarrow> leaves_context h c it"
    and o: "on_change_view h c = (c', None)"
  shows "panel_state c' = panel_state c"
    and "params c' = params c \<and> user c' = user c \<and> prompts c' = prompts c"
    and "\<forall>it \<in> set (items st). truthy (update_on_change it) \<longrightarrow>
           (\<exists>d. snd (load_plot_data_for_item h st it) = Inr d \<and>
                panel_data c' (''items.'' @ fstr h (name it)) = Some d)"
    and "\<forall>p. p \<notin> (\<lambda>it. ''items.'' @ fstr h (name it)) `
                  {it \<in> set (items st). truthy (update_on_change it)} \<longrightarrow>
              panel_data c' p = panel_data c p"
    and "\<forall>it \<in> set (items st). \<not> truthy (update_on_change it) \<longrightarrow>
           panel_data c' (''items.'' @ fstr h (name it)) =
           panel_data c (''items.'' @ fstr h (name it))"
proof -
  from i have f: "st_ctx st = c" "st_data st = []" "wf_dict (st_items st)"
    by (rule init_fields)+
  from f(2) have st: "st\<lparr>st_data := []\<rparr> = st" by simp
  from q f(1) have Q: "\<forall>it \<in> set (items st). truthy (update_on_change it) \<longrightarrow>
           (\<forall>dm. fst (load_plot_data h (st\<lparr>st_data := dm\<rparr>) (name it)) = st\<lparr>st_data := dm\<rparr>)"
    by (intro flagged_loads_leave_state [OF f(3) nk]) simp
  from o i obtain s' where l: "change_view_loop h st (items st) = (s', None)"
    and c': "c' = st_ctx (apply_data h s')"
    by (auto simp: on_change_view_def split: prod.splits option.splits)
  from l st have l0: "change_view_loop h (st\<lparr>st_data := []\<rparr>) (items st) = (s', None)" by simp
  let ?paths = "map (\<lambda>(k, v). (''items.'' @ fstr h k, v)) (st_data s')"
  from change_view_loop_frame [OF Q, of "[]"] obtain dm' where
    dms: "fst (change_view_loop h (st\<lparr>st_data := []\<rparr>) (items st)) = st\<lparr>st_data := dm'\<rparr> \<and>
      (wf_dict ([] :: (pyval \<times> pyval) list) \<longrightarrow> wf_dict dm') \<and>
      fst ` set dm' \<subseteq> fst ` set ([] :: (pyval \<times> pyval) list) \<union> name ` {it \<in> set (items st). truthy (update_on_change it)}"
    ..
  note dm' = dms [THEN conjunct1] dms [THEN conjunct2, THEN conjunct1]
    dms [THEN conjunct2, THEN conjunct2]
  from dm'(1) l0 have s': "s' = st\<lparr>st_data := dm'\<rparr>" by simp
  have fr: "st_ctx s' = c" "wf_dict (st_data s')"
    "fst ` set (st_data s') \<subseteq> name ` {it \<in> set (items st). truthy (update_on_change it)}"
    using dm'(2,3) f(1) unfolding s' by simp_all
  from c' fr(1) have c'': "c' = batch_set_data c ?paths"
    by (simp add: apply_data_def)
  show "panel_state c' = panel_state c"
    unfolding c'' by (rule panel_state_batch_set_data)
  show "params c' = params c \<and> user c' = user c \<and> prompts c' = prompts c"
    unfolding c'' by (simp add: frame_batch_set_data)
  have keys: "\<forall>k \<in> fst ` set (st_data s'). \<exists>s. k = VStr s"
  proof
    fix k assume "k \<in> fst ` set (st_data s')"
    with fr(3) obtain w where "w \<in> set (items st)" "k = name w" by auto
    with items_named(2) [OF f(3) nk] show "\<exists>s. k = VStr s" by simp
  qed
  show flagged: "\<forall>it \<in> set (items st). truthy (update_on_change it) \<longrightarrow>
           (\<exists>d. snd (load_plot_data_for_item h st it) = Inr d \<and>
                panel_data c' (''items.'' @ fstr h (name it)) = Some d)"
  proof (intro ballI impI)
    fix it assume it: "it \<in> set (items st)" "truthy (update_on_change it)"
    with change_view_loop_data [OF Q l0] obtain d where
      d: "snd (load_plot_data h st (name it)) = Inr d" "dict_get (st_data s') (name it) = Some d"
      by blast
    from items_named(2) [OF f(3) nk it(1)] obtain s where s: "name it = VStr s" by blast
    from d(1) have "snd (load_plot_data_for_item h st it) = Inr d"
      by (simp add: load_plot_data_named [OF f(3) nk it(1)])
    moreover have P: "panel_data c' (''items.'' @ s) =
        (case dict_get (st_data s') (VStr s) of Some v \<Rightarrow> Some v
         | None \<Rightarrow> panel_data c (''items.'' @ s))"
      unfolding c'' by (rule panel_data_string_keys [OF fr(2) keys])
    from d(2) have "panel_data c' (''items.'' @ fstr h (name it)) = Some d"
      unfolding s fstr_VStr P by simp
    ultimately show "\<exists>d. snd (load_plot_data_for_item h st it) = Inr d \<and>
                panel_data c' (''items.'' @ fstr h (name it)) = Some d" by blast
  qed
  show frame: "\<forall>p. p \<notin> (\<lambda>it. ''items.'' @ fstr h (name it)) `
                  {it \<in> set (items st). truthy (update_on_change it)} \<longrightarrow>
              panel_data c' p = panel_data c p"
  proof (intro allI impI)
    fix p
    assume p: "p \<notin> (\<lambda>it. ''items.'' @ fstr h (name it)) `
                  {it \<in> set (items st). truthy (update_on_change it)}"
    have "p \<notin> fst ` set ?paths"
    proof
      assume "p \<in> fst ` set ?paths"
      then obtain k where "k \<in> fst ` set (st_data s')" "p = ''items.'' @ fstr h k"
        by force
      with fr(3) p show False by auto
    qed
    then show "panel_data c' p = panel_data c p"
      unfolding c'' by (rule panel_data_batch_set_data)
  qed
  show "\<forall>it \<in> set (items st). \<not> truthy (update_on_change it) \<longrightarrow>
           panel_data c' (''items.'' @ fstr h (name it)) =
           panel_data c (''items.'' @ fstr h (name it))"
  proof (intro ballI impI)
    fix it assume it: "it \<in> set (items st)" "\<not> truthy (update_on_change it)"
    have "''items.'' @ fstr h (name it) \<notin> (\<lambda>it. ''items.'' @ fstr h (name it)) `
                  {it \<in> set (items st). truthy (update_on_change it)}"
    proof
      assume "''items.'' @ fstr h (name it) \<in> (\<lambda>it. ''items.'' @ fstr h (name it)) `
                  {it \<in> set (items st). truthy (update_on_change it)}"
      then obtain w where w: "w \<in> set (items st)" "truthy (update_on_change w)"
        "fstr h (name it) = fstr h (name w)" by auto
      from items_named [OF f(3) nk it(1)] items_named [OF f(3) nk w(1)] w(3)
      have "it = w" by (auto simp: fstr_VStr)
      with it(2) w(2) show False by simp
    qed
    with frame show "panel_data c' (''items.'' @ fstr h (name it)) =
           panel_data c (''items.'' @ fstr h (name it))" by blast
  qed
qed

lemma on_change_view_raises:
  assumes i: "DashboardState_init c = Inr st"
    and nk: "named_by_key (st_items st)"
    and q: "\<forall>it \<in> set (items st). truthy (update_on_change it) \<longrightarrow> leaves_context h c it"
    and o: "on_change_view h c = (c', Some e)"
  shows "c' = c"
proof -
  from i have f: "st_ctx st = c" "st_data st = []" "wf_dict (st_items st)"
    by (rule init_fields)+
  from f(2) have st: "st\<lparr>st_data := []\<rparr> = st" by simp
  from q f(1) have Q: "\<forall>it \<in> set (items st). truthy (update_on_change it) \<longrightarrow>
           (\<forall>dm. fst (load_plot_data h (st\<lparr>st_data := dm\<rparr>) (name it)) = st\<lparr>st_data := dm\<rparr>)"
    by (intro flagged_loads_leave_state [OF f(3) nk]) simp
  from change_view_loop_frame [OF Q, of "[]"] obtain dm' where
    "fst (change_view_loop h (st\<lparr>st_data := []\<rparr>) (items st)) = st\<lparr>st_data := dm'\<rparr> \<and>
      (wf_dict ([] :: (pyval \<times> pyval) list) \<longrightarrow> wf_dict dm') \<and>
      fst ` set dm' \<subseteq> fst ` set ([] :: (pyval \<times> pyval) list) \<union> name ` {it \<in> set (items st). truthy (update_on_change it)}"
    ..
  then have "fst (change_view_loop h (st\<lparr>st_data := []\<rparr>) (items st)) = st\<lparr>st_data := dm'\<rparr>"
    by (rule conjunct1)
  then have "st_ctx (fst (change_view_loop h st (items st))) = c"
    unfolding st by (simp add: f(1))
  with o i show ?thesis
    by (auto simp: on_change_view_def split: prod.splits option.splits)
qed

lemma on_change_view_returns:
  assumes i: "DashboardState_init c = Inr st"
    and nk: "named_by_key (st_items st)"
    and q: "\<forall>it \<in> set (items st). truthy (update_on_change it) \<longrightarrow> leaves_context h c it"
    and ok: "\<forall>it \<in> set (items st). truthy (update_on_change it) \<longrightarrow>
               (\<exists>d. snd (load_plot_data_for_item h st it) = Inr d)"
  shows "\<exists>c'. on_change_view h c = (c', None)"
proof -
  from i have f: "st_ctx st = c" "st_data st = []" "wf_dict (st_items st)"
    by (rule init_fields)+
  from f(2) have st: "st\<lparr>st_data := []\<rparr> = st" by simp
  from q f(1) have Q: "\<forall>it \<in> set (items st). truthy (update_on_change it) \<longrightarrow>
           (\<forall>dm. fst (load_plot_data h (st\<lparr>st_data := dm\<rparr>) (name it)) = st\<lparr>st_data := dm\<rparr>)"
    by (intro flagged_loads_leave_state [OF f(3) nk]) simp
  have R: "\<forall>it \<in> set (items st). truthy (update_on_change it) \<longrightarrow>
      hashable (name it) \<and> (\<exists>d. snd (load_plot_data h st (name it)) = Inr d)"
  proof (intro ballI impI)
    fix it assume it: "it \<in> set (items st)" "truthy (update_on_change it)"
    from items_named(2) [OF f(3) nk it(1)] have "hashable (name it)" by auto
    with ok it show "hashable (name it) \<and> (\<exists>d. snd (load_plot_data h st (name it)) = Inr d)"
      by (simp add: load_plot_data_named [OF f(3) nk it(1)])
  qed
  from change_view_loop_returns [OF Q R, of "[]"] st
  have "snd (change_view_loop h st (items st)) = None" by simp
  with i show ?thesis
    by (cases "change_view_loop h st (items st)") (simp add: on_change_view_def)
qed

text \<open>
  The panel's own handlers keep every widget under its name: a panel that has never stored
  anything loads as the empty collection, an add or an edit stores the item under its
  name, a removal only deletes, and what \<open>apply_state\<close> writes loads back as the collection
  it was written from.
\<close>

lemma named_by_key_fresh:
  "panel_state c ''items_config'' = None \<Longrightarrow> DashboardState_init c = Inr st \<Longrightarrow>
     named_by_key (st_items st)"
  by (auto simp: DashboardState_init_def get_state_def)

lemma named_by_key_plot_change:
  assumes "named_by_key (st_items st)"
    and "\<forall>it. new_item draw r cfg lay = Inr it \<longrightarrow> (\<exists>s. name it = VStr s)"
  shows "named_by_key (st_items (fst (plot_change_body h draw r cfg lay edit st)))"
  using assms by (auto simp: st_items_plot_change named_by_key_set split: sum.splits)

lemma named_by_key_reload:
  assumes "wf_dict (st_items s0)" and "named_by_key (st_items s0)"
    and "DashboardState_init (st_ctx (apply_state s0)) = Inr st"
  shows "named_by_key (st_items st)"
proof -
  have "get_state (st_ctx (apply_state s0)) ''items_config'' = items_as_dict s0"
    by (simp add: get_state_def apply_state_def set_state_def)
  with assms(1) have "st_items st = st_items s0"
    using assms(3) by (rule init_of_serialized)
  with assms(2) show ?thesis by simp
qed

text \<open>
  C6, for a panel whose widgets are stored under their names, the names being strings,
  and whose refreshing snippets leave the context as they find it. When \<open>on_change_view\<close>
  returns, every widget whose \<open>update_on_change\<close> is truthy has its freshly computed
  payload at the render-data path \<open>items.<name>\<close>; the render data of every widget whose
  flag is falsy (\<open>False\<close> or \<open>None\<close>), and every path that is not the path of a refreshed
  widget, is as it was; and the panel state, the parameters and the prompts are not
  touched. The handler does return whenever the payloads of the flagged widgets can be
  computed.
\<close>

theorem C6_change_view_refreshes_flagged:
  "DashboardState_init c = Inr st \<and> named_by_key (st_items st) \<and>
   (\<forall>it \<in> set (items st). truthy (update_on_change it) \<longrightarrow> leaves_context h c it) \<longrightarrow>
     (on_change_view h c = (c', None) \<longrightarrow>
        panel_state c' = panel_state c \<and>
        params c' = params c \<and> user c' = user c \<and> prompts c' = prompts c \<and>
        (\<forall>it \<in> set (items st). truthy (update_on_change it) \<longrightarrow>
           (\<exists>d. snd (load_plot_data_for_item h st it) = Inr d \<and>
                panel_data c' (''items.'' @ fstr h (name it)) = Some d)) \<and>
        (\<forall>it \<in> set (items st). \<not> truthy (update_on_change it) \<longrightarrow>
           panel_data c' (''items.'' @ fstr h (name it)) =
           panel_data c (''items.'' @ fstr h (name it))) \<and>
        (\<forall>p. p \<notin> (\<lambda>it. ''items.'' @ fstr h (name it)) `
                  {it \<in> set (items st). truthy (update_on_change it)} \<longrightarrow>
              panel_data c' p = panel_data c p)) \<and>
     ((\<forall>it \<in> set (items st). truthy (update_on_change it) \<longrightarrow>
          (\<exists>d. snd (load_plot_data_for_item h st it) = Inr d)) \<longrightarrow>
        (\<exists>c'. on_change_view h c = (c', None)))"
proof (intro impI conjI)
  assume a: "DashboardState_init c = Inr st \<and> named_by_key (st_items st) \<and>
   (\<forall>it \<in> set (items st). truthy (update_on_change it) \<longrightarrow> leaves_context h c it)"
  then have i: "DashboardState_init c = Inr st" and nk: "named_by_key (st_items st)"
    and q: "\<forall>it \<in> set (items st). truthy (update_on_change it) \<longrightarrow> leaves_context h c it"
    by simp_all
  { assume o: "on_change_view h c = (c', None)"
    note E = on_change_view_effect [OF i nk q o]
    from E(1) show "panel_state c' = panel_state c" .
    from E(2) show "params c' = params c" "user c' = user c" "prompts c' = prompts c"
      by simp_all
    from E(3) show "\<forall>it \<in> set (items st). truthy (update_on_change it) \<longrightarrow>
           (\<exists>d. snd (load_plot_data_for_item h st it) = Inr d \<and>
                panel_data c' (''items.'' @ fstr h (name it)) = Some d)" .
    from E(5) show "\<forall>it \<in> set (items st). \<not> truthy (update_on_change it) \<longrightarrow>
           panel_data c' (''items.'' @ fstr h (name it)) =
           panel_data c (''items.'' @ fstr h (name it))" .
    from E(4) show "\<forall>p. p \<notin> (\<lambda>it. ''items.'' @ fstr h (name it)) `
                  {it \<in> set (items st). truthy (update_on_change it)} \<longrightarrow>
              panel_data c' p = panel_data c p" . }
  { assume "\<forall>it \<in> set (items st). truthy (update_on_change it) \<longrightarrow>
          (\<exists>d. snd (load_plot_data_for_item h st it) = Inr d)"
    with i nk q show "\<exists>c'. on_change_view h c = (c', None)"
      by (rule on_change_view_returns) }
qed

lemma init_ex_snippet_ctx:
  "DashboardState_init ex_snippet_ctx =
     Inr \<lparr>st_ctx = ex_snippet_ctx,
          st_items = [(VStr ''plot_9'', ex_flagged_snippet), (VStr ''plot_8'', ex_hist)],
          st_data = []\<rparr>"
  by (simp add: DashboardState_init_def get_state_def ex_snippet_ctx_def from_dict_to_dict
      key_eq_VStr)

lemma init_ex_writing_ctx:
  "DashboardState_init ex_writing_ctx =
     Inr \<lparr>st_ctx = ex_writing_ctx,
          st_items = [(VStr ''plot_9'', ex_writing_snippet), (VStr ''plot_8'', ex_hist)],
          st_data = []\<rparr>"
  by (simp add: DashboardState_init_def get_state_def ex_writing_ctx_def from_dict_to_dict
      key_eq_VStr)

lemma init_ex_alias_ctx:
  "DashboardState_init ex_alias_ctx =
     Inr \<lparr>st_ctx = ex_alias_ctx,
          st_items = [(VStr ''plot_7'', ex_alias), (VStr ''plot_8'', ex_hist)],
          st_data = []\<rparr>"
  by (simp add: DashboardState_init_def get_state_def ex_alias_ctx_def from_dict_to_dict
      key_eq_VStr)

lemma exec_ex_writing_host:
  "exec ex_writing_host (code ex_flagged_snippet) c =
     (c, Inr [(VStr ''data'', VDict [(VStr ''x'', VList [VInt 3])])])"
  "exec ex_writing_host (code ex_writing_snippet) c =
     (batch_set_data (set_state c ''items_config'' (VDict []))
        [(''items.plot_8'', VStr ''overwritten'')],
      Inr [(VStr ''data'', VDict [(VStr ''x'', VList [VInt 3])])])"
  by (simp_all add: ex_writing_host_def ex_flagged_snippet_def ex_writing_snippet_def
      ex_snippet_def)

lemma snippet_fields:
  "name ex_flagged_snippet = VStr ''plot_9''" "name ex_writing_snippet = VStr ''plot_9''"
  "truthy (use_code ex_flagged_snippet)" "truthy (use_code ex_writing_snippet)"
  "truthy (code ex_flagged_snippet)" "truthy (code ex_writing_snippet)"
  "type ex_flagged_snippet = pie" "type ex_writing_snippet = pie"
  "truthy (update_on_change ex_flagged_snippet)" "truthy (update_on_change ex_writing_snippet)"
  by (simp_all add: ex_flagged_snippet_def ex_writing_snippet_def ex_snippet_def)

lemma hist_fields:
  "name ex_hist = VStr ''plot_8''" "\<not> truthy (update_on_change ex_hist)"
  "\<not> truthy (use_code ex_hist)" "type ex_hist = numeric_histogram"
  by (simp_all add: ex_hist_def)

lemma load_ex_flagged_snippet:
  "load_plot_data_for_item ex_writing_host st ex_flagged_snippet =
     (st, Inr (VDict [(VStr ''x'', VList [VInt 3]), (VStr ''type'', VStr ''pie'')]))"
  by (simp add: load_plot_data_for_item_def load_data_from_code_def snippet_fields
      exec_ex_writing_host dget_def key_eq_VStr)

lemma load_ex_writing_snippet:
  "load_plot_data_for_item ex_writing_host st ex_writing_snippet =
     (st\<lparr>st_ctx := batch_set_data (set_state (st_ctx st) ''items_config'' (VDict []))
                      [(''items.plot_8'', VStr ''overwritten'')]\<rparr>,
      Inr (VDict [(VStr ''x'', VList [VInt 3]), (VStr ''type'', VStr ''pie'')]))"
  by (simp add: load_plot_data_for_item_def load_data_from_code_def snippet_fields
      exec_ex_writing_host dget_def key_eq_VStr)

lemma load_ex_hist:
  "load_plot_data_for_item ex_host st ex_hist =
     (st, Inr (VDict [(VStr ''x'', VList [VFloat 0, VFloat 2]), (VStr ''y'', VList [VInt 4, VInt 1]),
                      (VStr ''type'', VStr ''bar''), (VStr ''width'', VList [VFloat 2, VFloat 3])]))"
  by (simp add: load_plot_data_for_item_def load_numeric_histogram_data_def hist_fields
      ex_host_def ex_hist_def Let_def)

theorem C6_change_view_refreshes_flagged_witness:
  "DashboardState_init ex_snippet_ctx =
     Inr \<lparr>st_ctx = ex_snippet_ctx,
          st_items = [(VStr ''plot_9'', ex_flagged_snippet), (VStr ''plot_8'', ex_hist)],
          st_data = []\<rparr> \<and>
   named_by_key [(VStr ''plot_9'', ex_flagged_snippet), (VStr ''plot_8'', ex_hist)] \<and>
   truthy (update_on_change ex_flagged_snippet) \<and> \<not> truthy (update_on_change ex_hist) \<and>
   truthy (use_code ex_flagged_snippet) \<and> truthy (code ex_flagged_snippet) \<and>
   leaves_context ex_writing_host ex_snippet_ctx ex_flagged_snippet \<and>
   (\<exists>c'. on_change_view ex_writing_host ex_snippet_ctx = (c', None) \<and>
         panel_state c' = panel_state ex_snippet_ctx \<and>
         panel_data c' ''items.plot_9'' =
           Some (VDict [(VStr ''x'', VList [VInt 3]), (VStr ''type'', VStr ''pie'')]) \<and>
         panel_data c' ''items.plot_8'' = Some (VDict [(VStr ''type'', VStr ''bar'')]) \<and>
         panel_data c' ''items.plot_7'' = None)"
proof -
  let ?st = "\<lparr>st_ctx = ex_snippet_ctx,
          st_items = [(VStr ''plot_9'', ex_flagged_snippet), (VStr ''plot_8'', ex_hist)],
          st_data = []\<rparr>"
  note T = C6_change_view_refreshes_flagged [where c = ex_snippet_ctx and st = ?st
      and h = ex_writing_host]
  have nk: "named_by_key [(VStr ''plot_9'', ex_flagged_snippet), (VStr ''plot_8'', ex_hist)]"
    by (simp add: snippet_fields hist_fields)
  then have nk': "named_by_key (st_items ?st)" by simp
  have its: "items ?st = [ex_flagged_snippet, ex_hist]"
    by (simp add: items_def)
  have lc: "leaves_context ex_writing_host ex_snippet_ctx ex_flagged_snippet"
    by (simp add: leaves_context_def exec_ex_writing_host)
  have q: "\<forall>it \<in> set (items ?st). truthy (update_on_change it) \<longrightarrow>
             leaves_context ex_writing_host ex_snippet_ctx it"
    unfolding its using lc by (simp add: hist_fields)
  have ok: "\<forall>it \<in> set (items ?st). truthy (update_on_change it) \<longrightarrow>
          (\<exists>d. snd (load_plot_data_for_item ex_writing_host ?st it) = Inr d)"
    unfolding its by (simp add: load_ex_flagged_snippet hist_fields)
  with T init_ex_snippet_ctx nk' q obtain c' where
    o: "on_change_view ex_writing_host ex_snippet_ctx = (c', None)"
    by blast
  note E = T [of c']
  from E init_ex_snippet_ctx nk' q o have ps: "panel_state c' = panel_state ex_snippet_ctx"
    by blast
  from E init_ex_snippet_ctx nk' q o
  have "\<forall>it \<in> set (items ?st). truthy (update_on_change it) \<longrightarrow>
           (\<exists>d. snd (load_plot_data_for_item ex_writing_host ?st it) = Inr d \<and>
                panel_data c' (''items.'' @ fstr ex_writing_host (name it)) = Some d)"
    by blast
  then have p9: "panel_data c' ''items.plot_9'' =
           Some (VDict [(VStr ''x'', VList [VInt 3]), (VStr ''type'', VStr ''pie'')])"
    unfolding its by (simp add: load_ex_flagged_snippet snippet_fields hist_fields fstr_VStr)
  from E init_ex_snippet_ctx nk' q o
  have "\<forall>it \<in> set (items ?st). \<not> truthy (update_on_change it) \<longrightarrow>
           panel_data c' (''items.'' @ fstr ex_writing_host (name it)) =
           panel_data ex_snippet_ctx (''items.'' @ fstr ex_writing_host (name it))"
    by blast
  then have p8: "panel_data c' ''items.plot_8'' = Some (VDict [(VStr ''type'', VStr ''bar'')])"
    unfolding its
    by (simp add: snippet_fields hist_fields fstr_VStr ex_snippet_ctx_def ex_rendered_ctx_def)
  from E init_ex_snippet_ctx nk' q o
  have "\<forall>p. p \<notin> (\<lambda>it. ''items.'' @ fstr ex_writing_host (name it)) `
                  {it \<in> set (items ?st). truthy (update_on_change it)} \<longrightarrow>
              panel_data c' p = panel_data ex_snippet_ctx p"
    by blast
  moreover have "''items.plot_7'' \<notin> (\<lambda>it. ''items.'' @ fstr ex_writing_host (name it)) `
                  {it \<in> set (items ?st). truthy (update_on_change it)}"
    unfolding its by (auto simp: snippet_fields hist_fields fstr_VStr)
  ultimately have p7: "panel_data c' ''items.plot_7'' = None"
    by (simp add: ex_snippet_ctx_def ex_rendered_ctx_def)
  from init_ex_snippet_ctx nk snippet_fields(3,5,9) hist_fields(2) lc o ps p9 p8 p7
  show ?thesis by blast
qed

lemma change_view_ex_writing_ctx:
  "on_change_view ex_writing_host ex_writing_ctx =
     (batch_set_data
        (batch_set_data (set_state ex_writing_ctx ''items_config'' (VDict []))
           [(''items.plot_8'', VStr ''overwritten'')])
        [(''items.plot_9'', VDict [(VStr ''x'', VList [VInt 3]), (VStr ''type'', VStr ''pie'')])],
      None)"
proof -
  let ?st = "\<lparr>st_ctx = ex_writing_ctx,
          st_items = [(VStr ''plot_9'', ex_writing_snippet), (VStr ''plot_8'', ex_hist)],
          st_data = []\<rparr>"
  have its: "items ?st = [ex_writing_snippet, ex_hist]"
    by (simp add: items_def)
  have g: "get_item ?st (VStr ''plot_9'') = Inr (Some ex_writing_snippet)"
    by (simp add: get_item_def key_eq_VStr)
  have l: "change_view_loop ex_writing_host ?st [ex_writing_snippet, ex_hist] =
      (?st\<lparr>st_ctx := batch_set_data (set_state ex_writing_ctx ''items_config'' (VDict []))
                      [(''items.plot_8'', VStr ''overwritten'')],
            st_data := [(VStr ''plot_9'',
                         VDict [(VStr ''x'', VList [VInt 3]), (VStr ''type'', VStr ''pie'')])]\<rparr>,
       None)"
    by (simp add: snippet_fields hist_fields load_plot_data_def g load_ex_writing_snippet
        setitem_def)
  show ?thesis
    by (simp add: on_change_view_def init_ex_writing_ctx its l apply_data_def fstr_VStr
        del: change_view_loop.simps)
qed

lemma change_view_ex_alias_ctx:
  "on_change_view ex_host ex_alias_ctx =
     (batch_set_data ex_alias_ctx
        [(''items.plot_8'',
          VDict [(VStr ''x'', VList [VFloat 0, VFloat 2]), (VStr ''y'', VList [VInt 4, VInt 1]),
                 (VStr ''type'', VStr ''bar''), (VStr ''width'', VList [VFloat 2, VFloat 3])])],
      None)"
proof -
  let ?st = "\<lparr>st_ctx = ex_alias_ctx,
          st_items = [(VStr ''plot_7'', ex_alias), (VStr ''plot_8'', ex_hist)],
          st_data = []\<rparr>"
  have its: "items ?st = [ex_alias, ex_hist]"
    by (simp add: items_def)
  have a: "name ex_alias = VStr ''plot_8''" "truthy (update_on_change ex_alias)"
    by (simp_all add: ex_alias_def ex_line_def)
  have g: "get_item ?st (VStr ''plot_8'') = Inr (Some ex_hist)"
    by (simp add: get_item_def key_eq_VStr)
  have l: "change_view_loop ex_host ?st [ex_alias, ex_hist] =
      (?st\<lparr>st_data := [(VStr ''plot_8'',
          VDict [(VStr ''x'', VList [VFloat 0, VFloat 2]), (VStr ''y'', VList [VInt 4, VInt 1]),
                 (VStr ''type'', VStr ''bar''), (VStr ''width'', VList [VFloat 2, VFloat 3])])]\<rparr>,
       None)"
    by (simp add: a hist_fields load_plot_data_def g load_ex_hist setitem_def)
  show ?thesis
    by (simp add: on_change_view_def init_ex_alias_ctx its l apply_data_def fstr_VStr
        del: change_view_loop.simps)
qed

text \<open>
  C6 as stated fails in two ways. A snippet is handed the live context: on the panel
  \<open>ex_writing_ctx\<close>, whose flagged widget \<open>plot_9\<close> runs a snippet that calls
  \<open>ctx.panel.set_state\<close> and \<open>ctx.panel.set_data\<close>, \<open>on_change_view\<close> returns with the
  widget configuration under \<open>items_config\<close> replaced by \<open>{}\<close> and the render data of the
  unflagged widget \<open>plot_8\<close> overwritten. And the payload is looked up and stored by the
  name of the widget, not by its key: on the panel \<open>ex_alias_ctx\<close>, where the flagged
  widget stored under \<open>plot_7\<close> carries the name \<open>plot_8\<close>, \<open>on_change_view\<close> recomputes the
  render data of the unflagged widget \<open>plot_8\<close> and pushes nothing for \<open>plot_7\<close>.
\<close>

theorem C6_change_view_counterexample:
  "DashboardState_init ex_writing_ctx =
     Inr \<lparr>st_ctx = ex_writing_ctx,
          st_items = [(VStr ''plot_9'', ex_writing_snippet), (VStr ''plot_8'', ex_hist)],
          st_data = []\<rparr> \<and>
   truthy (update_on_change ex_writing_snippet) \<and> \<not> truthy (update_on_change ex_hist) \<and>
   name ex_hist = VStr ''plot_8'' \<and>
   snd (on_change_view ex_writing_host ex_writing_ctx) = None \<and>
   panel_state ex_writing_ctx ''items_config'' =
     Some (VDict [(VStr ''plot_9'', to_dict ex_writing_snippet), (VStr ''plot_8'', to_dict ex_hist)]) \<and>
   panel_state (fst (on_change_view ex_writing_host ex_writing_ctx)) ''items_config'' =
     Some (VDict []) \<and>
   panel_data ex_writing_ctx ''items.plot_8'' = Some (VDict [(VStr ''type'', VStr ''bar'')]) \<and>
   panel_data (fst (on_change_view ex_writing_host ex_writing_ctx)) ''items.plot_8'' =
     Some (VStr ''overwritten'') \<and>
   DashboardState_init ex_alias_ctx =
     Inr \<lparr>st_ctx = ex_alias_ctx,
          st_items = [(VStr ''plot_7'', ex_alias), (VStr ''plot_8'', ex_hist)],
          st_data = []\<rparr> \<and>
   truthy (update_on_change ex_alias) \<and> name ex_alias = VStr ''plot_8'' \<and>
   snd (on_change_view ex_host ex_alias_ctx) = None \<and>
   panel_data ex_alias_ctx ''items.plot_8'' = Some (VDict [(VStr ''type'', VStr ''bar'')]) \<and>
   panel_data (fst (on_change_view ex_host ex_alias_ctx)) ''items.plot_8'' =
     Some (VDict [(VStr ''x'', VList [VFloat 0, VFloat 2]), (VStr ''y'', VList [VInt 4, VInt 1]),
                  (VStr ''type'', VStr ''bar''), (VStr ''width'', VList [VFloat 2, VFloat 3])]) \<and>
   panel_data (fst (on_change_view ex_host ex_alias_ctx)) ''items.plot_7'' = None"
proof -
  have w: "panel_state ex_writing_ctx ''items_config'' =
     Some (VDict [(VStr ''plot_9'', to_dict ex_writing_snippet), (VStr ''plot_8'', to_dict ex_hist)])"
    "panel_data ex_writing_ctx ''items.plot_8'' = Some (VDict [(VStr ''type'', VStr ''bar'')])"
    by (simp_all add: ex_writing_ctx_def ex_rendered_ctx_def)
  have w': "snd (on_change_view ex_writing_host ex_writing_ctx) = None"
    "panel_state (fst (on_change_view ex_writing_host ex_writing_ctx)) ''items_config'' =
       Some (VDict [])"
    "panel_data (fst (on_change_view ex_writing_host ex_writing_ctx)) ''items.plot_8'' =
       Some (VStr ''overwritten'')"
    by (simp_all add: change_view_ex_writing_ctx set_state_def)
  have a: "name ex_alias = VStr ''plot_8''" "truthy (update_on_change ex_alias)"
    "panel_data ex_alias_ctx ''items.plot_8'' = Some (VDict [(VStr ''type'', VStr ''bar'')])"
    by (simp_all add: ex_alias_def ex_line_def ex_alias_ctx_def ex_rendered_ctx_def)
  have a': "snd (on_change_view ex_host ex_alias_ctx) = None"
    "panel_data (fst (on_change_view ex_host ex_alias_ctx)) ''items.plot_8'' =
     Some (VDict [(VStr ''x'', VList [VFloat 0, VFloat 2]), (VStr ''y'', VList [VInt 4, VInt 1]),
                  (VStr ''type'', VStr ''bar''), (VStr ''width'', VList [VFloat 2, VFloat 3])])"
    "panel_data (fst (on_change_view ex_host ex_alias_ctx)) ''items.plot_7'' = None"
    unfolding change_view_ex_alias_ctx
    by (simp_all add: ex_alias_ctx_def ex_rendered_ctx_def ex_ctx_def)
  from init_ex_writing_ctx snippet_fields(10) hist_fields(1,2) w w' init_ex_alias_ctx a a'
  show ?thesis by simp
qed

subsection \<open>Generated names\<close>

lemma new_item_name:
  "new_item draw r cfg lay = Inr it \<Longrightarrow> name it = dget r ''name'' (VStr (get_next_item_id draw))"
  by (auto simp: new_item_def DashboardPlotItem_init_def Let_def split: sum.splits)

text \<open>
  An add without a name in \<open>result\<close> stores the widget under the generated id; when no
  widget has that id yet, the collection grows by exactly one.
\<close>

lemma add_with_fresh_name:
  assumes "dict_get r (VStr ''name'') = None"
    and "new_item draw r cfg lay = Inr it"
    and "dict_get (st_items st) (VStr (get_next_item_id draw)) = None"
  shows "name it = VStr (get_next_item_id draw)"
    and "item_count (fst (plot_change_body h draw r cfg lay False st)) = Suc (item_count st)"
    and "st_items (fst (plot_change_body h draw r cfg lay False st)) =
           st_items st @ [(VStr (get_next_item_id draw), it)]"
proof -
  from assms(1,2) show n: "name it = VStr (get_next_item_id draw)"
    by (simp add: new_item_name dget_def)
  from assms(2,3) n
  show "st_items (fst (plot_change_body h draw r cfg lay False st)) =
           st_items st @ [(VStr (get_next_item_id draw), it)]"
    by (simp add: st_items_plot_change dict_set_fresh)
  then show "item_count (fst (plot_change_body h draw r cfg lay False st)) = Suc (item_count st)"
    by (simp add: item_count_def)
qed

text \<open>
  C2. The generated id is not checked against the collection. With a widget \<open>plot_7\<close>
  already in the panel, an add without a name for which \<open>random.randint\<close> draws 7 again
  generates \<open>plot_7\<close>, stores the new pie chart under that key, and leaves two widgets
  where there were two: the line chart \<open>plot_7\<close> is gone.
\<close>

theorem C2_generated_name_collides:
  "DashboardState_init ex_ctx = Inr ex_state \<and>
   item_count ex_state = 2 \<and>
   dict_get (st_items ex_state) (VStr ''plot_7'') = Some ex_line \<and>
   (\<exists>r. dget (params ex_ctx) ''result'' VNone = VDict r \<and> dict_get r (VStr ''name'') = None) \<and>
   get_next_item_id 7 = ''plot_7'' \<and>
   (\<exists>s. handle_plot_change_state ex_host 7 ex_ctx False = Inr s \<and>
        item_count s = 2 \<and>
        st_items s = [(VStr ''plot_7'', ex_pie ''plot_7''), (VStr ''plot_8'', ex_hist)] \<and>
        panel_state (st_ctx s) ''items_config'' =
          Some (VDict [(VStr ''plot_7'', to_dict (ex_pie ''plot_7'')),
                       (VStr ''plot_8'', to_dict ex_hist)]))"
proof -
  have n: "get_next_item_id 7 = ''plot_7''"
    by (simp add: get_next_item_id_def str_of_nat.simps)
  have c: "item_count ex_state = 2" "dict_get (st_items ex_state) (VStr ''plot_7'') = Some ex_line"
    by (simp_all add: item_count_def ex_state_fields key_eq_VStr)
  have r: "\<exists>r. dget (params ex_ctx) ''result'' VNone = VDict r \<and> dict_get r (VStr ''name'') = None"
    by (simp add: result_ex_ctx key_eq_VStr)
  let ?s = "apply_state (fst (plot_change_body ex_host 7
            [(VStr ''plot_type'', VStr ''pie''), (VStr ''field'', VStr ''label'')]
            (VDict []) (VDict []) False ex_state))"
  have i: "st_items ?s = [(VStr ''plot_7'', ex_pie ''plot_7''), (VStr ''plot_8'', ex_hist)]"
    by (simp add: apply_state_serialized st_items_plot_change new_item_ex n)
      (simp add: ex_pie_def ex_state_fields key_eq_VStr)
  then have "item_count ?s = 2" by (simp add: item_count_def)
  moreover from i have "panel_state (st_ctx ?s) ''items_config'' =
          Some (VDict [(VStr ''plot_7'', to_dict (ex_pie ''plot_7'')),
                       (VStr ''plot_8'', to_dict ex_hist)])"
    by (simp add: apply_state_serialized items_as_dict_def)
  ultimately show ?thesis
    using init_ex_ctx n c r i plot_change_ex_ctx [of ex_host 7 False] by blast
qed

end
